theory Spec2Isabelle
  imports Main "HOL-Library.AList" "HOL-Library.Word"
begin

section \<open>Strings\<close>

text \<open>
  A TypeScript string is a finite sequence of code units; it is modelled as a
  \<^typ>\<open>string\<close> (a list of \<^typ>\<open>char\<close>). The template literal
  \<^verbatim>\<open>`${a}-${b}`\<close> is list append, \<^verbatim>\<open>s.length\<close> is \<^const>\<open>length\<close> and
  \<^verbatim>\<open>s.slice(n)\<close> with \<open>n \<ge> 0\<close> is \<^const>\<open>drop\<close>. An empty string is falsy.
\<close>

definition toLowerChar :: "char \<Rightarrow> char" where
  "toLowerChar c =
     (case map_of (zip ''ABCDEFGHIJKLMNOPQRSTUVWXYZ'' ''abcdefghijklmnopqrstuvwxyz'') c of
        None \<Rightarrow> c
      | Some l \<Rightarrow> l)"

definition toLowerCase :: "string \<Rightarrow> string" where
  "toLowerCase s = map toLowerChar s"

definition endsWith :: "string \<Rightarrow> string \<Rightarrow> bool" where
  "endsWith s t = (length t \<le> length s \<and> drop (length s - length t) s = t)"

fun includes_str :: "string \<Rightarrow> string \<Rightarrow> bool" where
  "includes_str [] t = (t = [])"
| "includes_str (c # cs) t = (take (length t) (c # cs) = t \<or> includes_str cs t)"

section \<open>The response stream collection\<close>

text \<open>
  \<^verbatim>\<open>interface ResponseStreamIdentifier { sessionId: string; exchangeId: string }\<close>
\<close>

record ResponseStreamIdentifier =
  sessionId :: string
  exchangeId :: string

text \<open>
  A \<^verbatim>\<open>vscode.AideAgentEventSenderResponse\<close> is an object of the editor. The provider
  reads its \<^verbatim>\<open>exchangeId\<close> and writes to its \<^verbatim>\<open>stream\<close>; the stream object is
  represented by a number that identifies it in the log of stream calls.
\<close>

record AideAgentEventSenderResponse =
  responseExchangeId :: string
  stream :: nat

text \<open>
  \<^verbatim>\<open>class AideResponseStreamCollection\<close>. The JavaScript \<^verbatim>\<open>Map\<close> keeps its entries in
  insertion order, \<^verbatim>\<open>set\<close> on a present key replaces the value in place and on an
  absent key appends, \<^verbatim>\<open>delete\<close> removes the entry: an association list with
  \<^const>\<open>AList.update\<close>, \<^const>\<open>AList.delete\<close> and \<^const>\<open>map_of\<close>. The field
  \<open>latestResponseStreamEntry\<close> is the private \<^verbatim>\<open>_latestResponseStream\<close>, and
  \<open>subscriptions\<close> lists the identifiers whose cancellation listener
  \<^verbatim>\<open>addResponseStream\<close> has pushed to the extension context.
\<close>

record AideResponseStreamCollection =
  responseStreamCollection :: "(string \<times> AideAgentEventSenderResponse) list"
  latestResponseStreamEntry :: "(string \<times> AideAgentEventSenderResponse) option"
  subscriptions :: "ResponseStreamIdentifier list"

definition newAideResponseStreamCollection :: AideResponseStreamCollection where
  "newAideResponseStreamCollection =
     \<lparr>responseStreamCollection = [], latestResponseStreamEntry = None, subscriptions = []\<rparr>"

definition latestResponseStream ::
  "AideResponseStreamCollection \<Rightarrow> AideAgentEventSenderResponse option" where
  "latestResponseStream c = map_option snd (latestResponseStreamEntry c)"

definition getKey :: "ResponseStreamIdentifier \<Rightarrow> string" where
  "getKey responseStreamIdentifier =
     sessionId responseStreamIdentifier @ ''-'' @ exchangeId responseStreamIdentifier"

definition addResponseStream ::
  "AideResponseStreamCollection \<Rightarrow> ResponseStreamIdentifier \<Rightarrow> AideAgentEventSenderResponse
   \<Rightarrow> AideResponseStreamCollection" where
  "addResponseStream c responseStreamIdentifier responseStream =
     c\<lparr>subscriptions := subscriptions c @ [responseStreamIdentifier],
       responseStreamCollection :=
         AList.update (getKey responseStreamIdentifier) responseStream (responseStreamCollection c)\<rparr>"

definition getResponseStream ::
  "AideResponseStreamCollection \<Rightarrow> ResponseStreamIdentifier
   \<Rightarrow> AideAgentEventSenderResponse option \<times> AideResponseStreamCollection" where
  "getResponseStream c responseStreamIdentifier =
     (let key = getKey responseStreamIdentifier in
      case map_of (responseStreamCollection c) key of
        None \<Rightarrow> (None, c)
      | Some responseStream \<Rightarrow>
          (Some responseStream, c\<lparr>latestResponseStreamEntry := Some (key, responseStream)\<rparr>))"

definition removeResponseStream ::
  "AideResponseStreamCollection \<Rightarrow> ResponseStreamIdentifier \<Rightarrow> AideResponseStreamCollection" where
  "removeResponseStream c responseStreamIdentifer =
     (let key = getKey responseStreamIdentifer;
          success = (map_of (responseStreamCollection c) key \<noteq> None);
          c' = c\<lparr>responseStreamCollection := AList.delete key (responseStreamCollection c)\<rparr>
      in if success \<and> map_option fst (latestResponseStreamEntry c) = Some key
         then c'\<lparr>latestResponseStreamEntry := None\<rparr> else c')"

definition getAllResponseStreams ::
  "AideResponseStreamCollection \<Rightarrow> AideAgentEventSenderResponse list" where
  "getAllResponseStreams c = map snd (responseStreamCollection c)"

text \<open>Sequences of calls on a collection, to speak about every collection a run can build.\<close>

datatype collection_call =
    AddResponseStream ResponseStreamIdentifier AideAgentEventSenderResponse
  | GetResponseStream ResponseStreamIdentifier
  | RemoveResponseStream ResponseStreamIdentifier

fun collection_step :: "AideResponseStreamCollection \<Rightarrow> collection_call \<Rightarrow> AideResponseStreamCollection" where
  "collection_step c (AddResponseStream k h) = addResponseStream c k h"
| "collection_step c (GetResponseStream k) = snd (getResponseStream c k)"
| "collection_step c (RemoveResponseStream k) = removeResponseStream c k"

definition collection_run :: "collection_call list \<Rightarrow> AideResponseStreamCollection" where
  "collection_run calls = foldl collection_step newAideResponseStreamCollection calls"

text \<open>The key of the latest entry is a key of the map.\<close>

definition latest_registered :: "AideResponseStreamCollection \<Rightarrow> bool" where
  "latest_registered c =
     (case latestResponseStreamEntry c of
        None \<Rightarrow> True
      | Some (key, _) \<Rightarrow> map_of (responseStreamCollection c) key \<noteq> None)"

section \<open>The session provider: state and effects\<close>

text \<open>
  The errors the provider raises: \<^verbatim>\<open>new Error(message)\<close>, the
  \<^verbatim>\<open>SidecarConnectionFailedError\<close> of this file, and the \<^verbatim>\<open>TypeError\<close> of the runtime
  for a property read on \<^verbatim>\<open>undefined\<close> (the text names the property read).
\<close>

datatype error =
    Error string
  | SidecarConnectionFailedError string
  | TypeError string

fun error_message :: "error \<Rightarrow> string" where
  "error_message (Error m) = m"
| "error_message (SidecarConnectionFailedError m) = m"
| "error_message (TypeError m) = m"

text \<open>
  The decimal digits of a natural number: what \<^verbatim>\<open>`${n}`\<close> gives for a number \<open>n\<close> that is
  an integer from 0 to 9007199254740991 (the safe integers). It is applied to these only:
  to a port (below 65535) and to a safe integer.
\<close>

fun numberToString :: "nat \<Rightarrow> string" where
  "numberToString n =
     (if n < 10 then [''0123456789'' ! n]
      else numberToString (n div 10) @ [''0123456789'' ! (n mod 10)])"

text \<open>
  A JavaScript number in a template literal. An integer from 0 to 9007199254740991 is a
  53-bit word and is printed in decimal digits. Any other number (a larger one, a
  negative one, a fraction, \<^verbatim>\<open>NaN\<close>) is given by the text the runtime prints for it, which
  is not decimal digits in general (\<^verbatim>\<open>1e+21\<close> for ten to the power 21).
\<close>

datatype js_number = SafeInteger "53 word" | OtherNumber string

definition templateNumber :: "js_number \<Rightarrow> string" where
  "templateNumber n =
     (case n of
        SafeInteger w \<Rightarrow> numberToString (unat w)
      | OtherNumber printed \<Rightarrow> printed)"

text \<open>
  The field \<^verbatim>\<open>index\<close> of a \<^verbatim>\<open>SidecarUndoPlanStep\<close>: \<^verbatim>\<open>null\<close>, missing from the
  request (\<^verbatim>\<open>undefined\<close>), or a number.
\<close>

datatype plan_step_index = IndexNull | IndexUndefined | IndexNumber js_number

text \<open>
  One entry of a \<^verbatim>\<open>vscode.WorkspaceEdit\<close> made by
  \<^verbatim>\<open>edit.delete(uri, new Range(start, end), {label, needsConfirmation})\<close>; positions are
  (line, character).
\<close>

record delete_entry =
  uri :: string
  range_start :: "nat \<times> nat"
  range_end :: "nat \<times> nat"
  label :: string
  needsConfirmation :: bool

text \<open>The calls the provider makes on \<^verbatim>\<open>responseStream.stream\<close>.\<close>

datatype stream_call =
    Stage string
  | Markdown string
  | Reference string
  | ToolTypeError string
  | Step nat string
  | CodeEdit "delete_entry list"
  | MarkLastMessageAsComplete
  | Close

text \<open>
  \<^verbatim>\<open>SidecarUndoPlanStep\<close>, \<^verbatim>\<open>SidecarApplyEditsRequest\<close> and
  \<^verbatim>\<open>EditedCodeStreamingRequest\<close> are declared in \<^verbatim>\<open>server/types\<close>; the records hold
  the fields this file reads. \<^verbatim>\<open>plan_step_id\<close> is \<^verbatim>\<open>null\<close> when \<^const>\<open>None\<close>. The fields \<^verbatim>\<open>session_id\<close>, \<^verbatim>\<open>exchange_id\<close>, \<^verbatim>\<open>apply_directly\<close> and
  \<^verbatim>\<open>fs_file_path\<close> of an \<^verbatim>\<open>EditedCodeStreamingRequest\<close> carry the prefix \<open>edit_\<close> here,
  as two records cannot share a field name. The event of a streamed edit is \<^verbatim>\<open>'Start'\<close>, \<^verbatim>\<open>'End'\<close> or
  \<^verbatim>\<open>{ Delta: string }\<close>.
\<close>

record SidecarUndoPlanStep =
  session_id :: string
  exchange_id :: string
  index :: plan_step_index

record SidecarApplyEditsRequest =
  fs_file_path :: string
  apply_directly :: bool

datatype edit_stream_event = Start | End | Delta string

record EditedCodeStreamingRequest =
  edit_session_id :: string
  edit_exchange_id :: string
  plan_step_id :: "string option"
  edit_apply_directly :: bool
  edit_fs_file_path :: string
  edit_request_id :: string
  range :: "(nat \<times> nat) \<times> (nat \<times> nat)"
  event :: edit_stream_event

text \<open>
  The arguments of one call of the sidecar client from \<^verbatim>\<open>streamResponse\<close>: the method
  (\<^verbatim>\<open>agentSessionPlanStep\<close> with its \<^verbatim>\<open>isWholeCodebase\<close> argument), and what identifies
  the request and its credential. \<open>call_hasRetried\<close> is not an argument of the client: it
  is the \<^verbatim>\<open>hasRetried\<close> of the activation of \<^verbatim>\<open>streamResponse\<close> that makes the call.
\<close>

datatype sidecar_method =
    AgentSessionChat
  | AgentSessionAnchoredEdit
  | AgentSessionPlanStep bool

record sidecar_call =
  call_method :: sidecar_method
  call_prompt :: string
  call_sessionId :: string
  call_exchangeId :: string
  call_editorUrl :: string
  call_accessToken :: string
  call_hasRetried :: bool

text \<open>
  What the provider does to its collaborators, in the order it does it: calls on a
  stream (by the number of the stream), on the edit collaborators, on the workspace, on
  the listener and on the chat API, and calls of the optional \<^verbatim>\<open>errorCallback\<close>.
\<close>

datatype effect =
    StreamCall nat stream_call
  | ApplyEditsDirectly SidecarApplyEditsRequest
  | ApplyEdits SidecarApplyEditsRequest nat
  | ProcessLine string string
  | Cleanup string
  | Save string
  | OnDidCreateFiles string
  | ShowErrorMessage string
  | Listen nat
  | InitResponse string
  | ErrorCallback

text \<open>
  A stream processor as \<^verbatim>\<open>provideEditStreamed\<close> constructs it (the class is declared in
  \<^verbatim>\<open>chatState/convertStreamToMessage\<close>): the arguments of the constructor. An edit
  session is an entry of \<^verbatim>\<open>editsMap\<close>: the text the answer splitter has buffered, and the
  stream processor.
\<close>

record StreamProcessor =
  processor_stream :: "nat option"
  documentLines :: "string list"
  processor_uri :: string
  processor_range :: "(nat \<times> nat) \<times> (nat \<times> nat)"
  processor_applyDirectly :: bool
  uniqueEditId :: string

record edit_session =
  answerSplitter :: string
  streamProcessor :: StreamProcessor

text \<open>
  \<^verbatim>\<open>class AideAgentSessionProvider\<close>. \<open>streamCollection\<close> is the field
  \<^verbatim>\<open>responseStreamCollection\<close> of the provider, \<open>startedStreams\<close> a \<^verbatim>\<open>Set\<close>. The last
  three fields are the environment: what the next calls of \<^verbatim>\<open>aideAgent.initResponse\<close>
  return, the text of the files of the workspace, and the paths at which
  \<^verbatim>\<open>createFileIfNotExists\<close> fails.
\<close>

record AideAgentSessionProvider =
  streamCollection :: AideResponseStreamCollection
  lastThinkingText :: "(string \<times> string) list"
  editorUrl :: "string option"
  editsMap :: "(string \<times> edit_session) list"
  openResponseStream :: "nat option"
  editCounter :: nat
  startedStreams :: "string list"
  effects :: "effect list"
  initResponseResults :: "AideAgentEventSenderResponse option list"
  documents :: "(string \<times> string) list"
  uncreatable :: "string list"

definition newProvider ::
  "AideAgentEventSenderResponse option list \<Rightarrow> (string \<times> string) list \<Rightarrow> string list
   \<Rightarrow> AideAgentSessionProvider" where
  "newProvider inits docs bad =
     \<lparr>streamCollection = newAideResponseStreamCollection, lastThinkingText = [],
      editorUrl = None, editsMap = [], openResponseStream = None, editCounter = 0,
      startedStreams = [], effects = [],
      initResponseResults = inits, documents = docs, uncreatable = bad\<rparr>"

definition emit :: "effect \<Rightarrow> AideAgentSessionProvider \<Rightarrow> AideAgentSessionProvider" where
  "emit e s = s\<lparr>effects := effects s @ [e]\<rparr>"

text \<open>The provider's calls of the collection, on its own state.\<close>

definition lookupResponseStream ::
  "AideAgentSessionProvider \<Rightarrow> ResponseStreamIdentifier
   \<Rightarrow> AideAgentEventSenderResponse option \<times> AideAgentSessionProvider" where
  "lookupResponseStream s k =
     (case getResponseStream (streamCollection s) k of
        (responseStream, c) \<Rightarrow> (responseStream, s\<lparr>streamCollection := c\<rparr>))"

section \<open>The inbound server\<close>

text \<open>
  \<^verbatim>\<open>getNextOpenPort(startFrom = 42427)\<close>. \<^verbatim>\<open>isPortOpen\<close> binds a socket: it is the
  environment's answer for the port probed (a port is probed at most once). The loop test
  is \<^verbatim>\<open>startFrom < 65535 || !!openPort\<close>, and \<^verbatim>\<open>openPort\<close> is \<^verbatim>\<open>null\<close> at every test,
  since the only assignment to it is followed by \<^verbatim>\<open>break\<close>. The function returns
  \<^verbatim>\<open>openPort\<close> and the ports probed, in order.
\<close>

function getNextOpenPort_loop :: "(nat \<Rightarrow> bool) \<Rightarrow> nat \<Rightarrow> nat list \<Rightarrow> nat option \<times> nat list" where
  "getNextOpenPort_loop isPortOpen startFrom probed =
     (if startFrom < 65535 then
        (if isPortOpen startFrom then (Some startFrom, probed @ [startFrom])
         else getNextOpenPort_loop isPortOpen (startFrom + 1) (probed @ [startFrom]))
      else (None, probed))"
  by pat_completeness auto
termination
  by (relation "measure (\<lambda>(isPortOpen, startFrom, probed). 65535 - startFrom)") auto

declare getNextOpenPort_loop.simps [simp del]

definition getNextOpenPort :: "(nat \<Rightarrow> bool) \<Rightarrow> nat option \<times> nat list" where
  "getNextOpenPort isPortOpen = getNextOpenPort_loop isPortOpen 42427 []"

text \<open>
  The constructor: the callback of \<^verbatim>\<open>this.getNextOpenPort().then(...)\<close> on the state
  the constructor has set up.
\<close>

definition startRequestHandler ::
  "nat option \<Rightarrow> AideAgentSessionProvider \<Rightarrow> error + AideAgentSessionProvider" where
  "startRequestHandler port s =
     (case port of
        None \<Rightarrow> Inl (Error ''Could not find an open port'')
      | Some p \<Rightarrow>
          Inr ((emit (Listen p) s)\<lparr>editorUrl := Some (''http://localhost:'' @ numberToString p)\<rparr>))"

definition constructProvider ::
  "(nat \<Rightarrow> bool) \<Rightarrow> AideAgentSessionProvider \<Rightarrow> error + AideAgentSessionProvider" where
  "constructProvider isPortOpen s = startRequestHandler (fst (getNextOpenPort isPortOpen)) s"

text \<open>
  \<^verbatim>\<open>undoToCheckpoint\<close>; the value returned is the field \<^verbatim>\<open>success\<close>. The test is
  \<^verbatim>\<open>planStep !== null\<close>, so a missing index gives the label its \<^verbatim>\<open>undefined\<close>.
\<close>

definition undoToCheckpoint ::
  "AideAgentSessionProvider \<Rightarrow> SidecarUndoPlanStep \<Rightarrow> bool \<times> AideAgentSessionProvider" where
  "undoToCheckpoint s request =
     (let exchangeId = exchange_id request;
          sessionId = session_id request;
          planStep = index request
      in case lookupResponseStream s \<lparr>sessionId = sessionId, exchangeId = exchangeId\<rparr> of
           (None, s1) \<Rightarrow> (False, s1)
         | (Some responseStream, s1) \<Rightarrow>
             (let label = (case planStep of
                             IndexNull \<Rightarrow> exchangeId
                           | IndexUndefined \<Rightarrow> exchangeId @ ''::'' @ ''undefined''
                           | IndexNumber n \<Rightarrow> exchangeId @ ''::'' @ templateNumber n);
                  edit = [\<lparr>uri = ''/undoCheck'', range_start = (0, 0), range_end = (0, 0),
                           label = label, needsConfirmation = False\<rparr>]
              in (True, emit (StreamCall (stream responseStream) (CodeEdit edit)) s1)))"

text \<open>
  \<^verbatim>\<open>aideAgent.initResponse(sessionId)\<close> and \<^verbatim>\<open>newExchangeIdForSession\<close>; the value
  returned is the field \<^verbatim>\<open>exchange_id\<close>.
\<close>

definition initResponse ::
  "AideAgentSessionProvider \<Rightarrow> string
   \<Rightarrow> AideAgentEventSenderResponse option \<times> AideAgentSessionProvider" where
  "initResponse s sid =
     (case initResponseResults s of
        [] \<Rightarrow> (None, emit (InitResponse sid) s)
      | r # rs \<Rightarrow> (r, emit (InitResponse sid) (s\<lparr>initResponseResults := rs\<rparr>)))"

definition newExchangeIdForSession ::
  "AideAgentSessionProvider \<Rightarrow> string \<Rightarrow> string option \<times> AideAgentSessionProvider" where
  "newExchangeIdForSession s sid =
     (case initResponse s sid of
        (None, s1) \<Rightarrow> (None, s1)
      | (Some response, s1) \<Rightarrow>
          (Some (responseExchangeId response),
           s1\<lparr>streamCollection :=
                addResponseStream (streamCollection s1)
                  \<lparr>sessionId = sid, exchangeId = responseExchangeId response\<rparr> response\<rparr>))"

text \<open>
  \<^verbatim>\<open>provideEdit\<close>. \<^verbatim>\<open>applyEdits\<close> and \<^verbatim>\<open>applyEditsDirectly\<close> are declared in
  \<^verbatim>\<open>server/applyEdits\<close>: the calls are logged, and what \<^verbatim>\<open>applyEdits\<close> returns is the
  parameter \<open>applyEditsResult\<close>. The value returned is (\<^verbatim>\<open>fs_file_path\<close>, \<^verbatim>\<open>success\<close>).
\<close>

definition provideEdit ::
  "(SidecarApplyEditsRequest \<Rightarrow> nat \<Rightarrow> string \<times> bool) \<Rightarrow> AideAgentSessionProvider
   \<Rightarrow> SidecarApplyEditsRequest \<Rightarrow> (string \<times> bool) \<times> AideAgentSessionProvider" where
  "provideEdit applyEditsResult s request =
     (if apply_directly request
      then ((fs_file_path request, True), emit (ApplyEditsDirectly request) s)
      else case openResponseStream s of
             None \<Rightarrow> ((fs_file_path request, True), s)
           | Some open_stream \<Rightarrow>
               (applyEditsResult request open_stream, emit (ApplyEdits request open_stream) s))"

section \<open>Streamed edits\<close>

text \<open>\<^verbatim>\<open>document.getText().split(/\r\n|\r|\n/g)\<close>\<close>

fun splitLines :: "string \<Rightarrow> string list" where
  "splitLines [] = [[]]"
| "splitLines [c] = (if c = CHR 0x0D \<or> c = CHR 0x0A then [[], []] else [[c]])"
| "splitLines (c # d # cs) =
     (if c = CHR 0x0D \<and> d = CHR 0x0A then [] # splitLines cs
      else if c = CHR 0x0D \<or> c = CHR 0x0A then [] # splitLines (d # cs)
      else (case splitLines (d # cs) of [] \<Rightarrow> [[c]] | l # ls \<Rightarrow> (c # l) # ls))"

text \<open>
  Modelled from the spec: the class \<^verbatim>\<open>AnswerSplitOnNewLineAccumulatorStreaming\<close> of
  \<^verbatim>\<open>chatState/convertStreamToMessage\<close> is not among the sources. A delta is appended to
  the buffered text; a line is complete once its terminator is seen, and \<^verbatim>\<open>getLine\<close>
  takes the first complete line off the buffer, or returns \<^verbatim>\<open>null\<close> when there is none.
\<close>

definition addDelta :: "string \<Rightarrow> string \<Rightarrow> string" where
  "addDelta buffer delta = buffer @ delta"

definition getLine :: "string \<Rightarrow> (string \<times> string) option" where
  "getLine buffer =
     (if CHR 0x0A \<in> set buffer
      then Some (takeWhile (\<lambda>c. c \<noteq> CHR 0x0A) buffer, tl (dropWhile (\<lambda>c. c \<noteq> CHR 0x0A) buffer))
      else None)"

text \<open>
  The loop \<^verbatim>\<open>while (true) { const currentLine = answerSplitter.getLine(); if (currentLine
  === null) break; await streamProcessor.processLine(currentLine); }\<close>: it returns the
  text left in the buffer. \<^verbatim>\<open>processLine\<close> is a call on the collaborator.
\<close>

function drainLines ::
  "string \<Rightarrow> string \<Rightarrow> AideAgentSessionProvider \<Rightarrow> string \<times> AideAgentSessionProvider" where
  "drainLines editRequestId buffer s =
     (case getLine buffer of
        None \<Rightarrow> (buffer, s)
      | Some (currentLine, rest) \<Rightarrow>
          drainLines editRequestId rest (emit (ProcessLine editRequestId currentLine) s))"
  by pat_completeness auto
termination
proof (relation "measure (\<lambda>(editRequestId, buffer, s). length buffer)")
  show "wf (measure (\<lambda>(editRequestId, buffer, s). length buffer))"
    by simp
next
  fix editRequestId buffer :: string and s :: AideAgentSessionProvider and x2 currentLine rest
  assume a: "getLine buffer = Some x2" "(currentLine, rest) = x2"
  then have in_set: "CHR 0x0A \<in> set buffer"
    and rest: "rest = tl (dropWhile (\<lambda>c. c \<noteq> CHR 0x0A) buffer)"
    by (auto simp: getLine_def split: if_splits)
  from in_set have "dropWhile (\<lambda>c. c \<noteq> CHR 0x0A) buffer \<noteq> []"
    by (simp add: dropWhile_eq_Nil_conv)
  then have "length rest < length (dropWhile (\<lambda>c. c \<noteq> CHR 0x0A) buffer)"
    unfolding rest by (cases "dropWhile (\<lambda>c. c \<noteq> CHR 0x0A) buffer") simp_all
  also have "\<dots> \<le> length buffer"
    by (rule length_dropWhile_le)
  finally show "((editRequestId, rest, emit (ProcessLine editRequestId currentLine) s),
                 (editRequestId, buffer, s))
      \<in> measure (\<lambda>(editRequestId, buffer, s). length buffer)"
    by simp
qed

declare drainLines.simps [simp del]

text \<open>
  \<^verbatim>\<open>vscode.workspace.openTextDocument\<close> throws for a file that does not exist; then
  \<^verbatim>\<open>createFileIfNotExists\<close> creates an empty file, unless the path is one where creation
  fails. The value is the text of the document, or \<^const>\<open>None\<close> for \<^verbatim>\<open>undefined\<close>.
\<close>

definition openOrCreateDocument ::
  "AideAgentSessionProvider \<Rightarrow> string \<Rightarrow> string option \<times> AideAgentSessionProvider" where
  "openOrCreateDocument s fileDocument =
     (case map_of (documents s) fileDocument of
        Some text \<Rightarrow> (Some text, s)
      | None \<Rightarrow>
          (if fileDocument \<in> set (uncreatable s)
           then (None, emit (ShowErrorMessage
                   (''File creation at '' @ fileDocument @ '' failed, please tell the devs!'')) s)
           else (Some [], emit (OnDidCreateFiles fileDocument)
                   (s\<lparr>documents := AList.update fileDocument [] (documents s)\<rparr>))))"

text \<open>
  \<^verbatim>\<open>provideEditStreamed\<close>. The value returned is (\<^verbatim>\<open>fs_file_path\<close>, \<^verbatim>\<open>success\<close>), or
  the error thrown; the state is the state at the return or at the throw. An empty
  \<^verbatim>\<open>plan_step_id\<close> and an empty \<^verbatim>\<open>Delta\<close> are falsy. In the \<^verbatim>\<open>End\<close> branch the entry
  of \<^verbatim>\<open>editsMap\<close> is read with no test, and \<^verbatim>\<open>editsManager.answerSplitter\<close> on
  \<^verbatim>\<open>undefined\<close> throws a \<^verbatim>\<open>TypeError\<close>; the \<^verbatim>\<open>Delta\<close> branch tests
  \<^verbatim>\<open>editsManager !== undefined\<close>.
\<close>

definition provideEditStreamed ::
  "AideAgentSessionProvider \<Rightarrow> EditedCodeStreamingRequest
   \<Rightarrow> (error + string \<times> bool) \<times> AideAgentSessionProvider" where
  "provideEditStreamed s request =
     (case lookupResponseStream s
             \<lparr>sessionId = edit_session_id request, exchangeId = edit_exchange_id request\<rparr> of
        (responseStream, s1) \<Rightarrow>
     (let uniqueEditId =
            (case plan_step_id request of
               None \<Rightarrow> edit_exchange_id request
             | Some step \<Rightarrow>
                 if step = [] then edit_exchange_id request
                 else edit_exchange_id request @ ''::'' @ step)
      in if \<not> edit_apply_directly request \<and> openResponseStream s1 = None \<and> responseStream = None
         then (Inr ([], False), s1)
         else
           (let fileDocument = edit_fs_file_path request in
            case event request of
              Start \<Rightarrow>
                (case openOrCreateDocument s1 fileDocument of
                   (None, s2) \<Rightarrow> (Inr ([], False), s2)
                 | (Some text, s2) \<Rightarrow>
                     (Inr ([], True),
                      s2\<lparr>editsMap :=
                           AList.update (edit_request_id request)
                             \<lparr>answerSplitter = [],
                              streamProcessor =
                                \<lparr>processor_stream = map_option stream responseStream,
                                 documentLines = splitLines text,
                                 processor_uri = edit_fs_file_path request,
                                 processor_range = range request,
                                 processor_applyDirectly = edit_apply_directly request,
                                 uniqueEditId = uniqueEditId\<rparr>\<rparr>
                             (editsMap s2)\<rparr>))
            | End \<Rightarrow>
                (case map_of (editsMap s1) (edit_request_id request) of
                   None \<Rightarrow>
                     (Inl (TypeError ''Cannot read properties of undefined (reading 'answerSplitter')''), s1)
                 | Some editsManager \<Rightarrow>
                     (case drainLines (edit_request_id request) (answerSplitter editsManager) s1 of
                        (rest, s2) \<Rightarrow>
                          (let s3 = emit (Cleanup (edit_request_id request)) s2;
                               s4 = emit (Save (edit_fs_file_path request)) s3;
                               s5 = s4\<lparr>editsMap := AList.delete (edit_request_id request) (editsMap s4)\<rparr>
                           in (Inr ([], True), s5\<lparr>editCounter := editCounter s5 + 1\<rparr>))))
            | Delta delta \<Rightarrow>
                (if delta = [] then (Inr ([], True), s1)
                 else
                   (case map_of (editsMap s1) (edit_request_id request) of
                      None \<Rightarrow> (Inr ([], True), s1)
                    | Some editsManager \<Rightarrow>
                        (case drainLines (edit_request_id request)
                                (addDelta (answerSplitter editsManager) delta) s1 of
                           (rest, s2) \<Rightarrow>
                             (Inr ([], True),
                              s2\<lparr>editsMap :=
                                   AList.update (edit_request_id request)
                                     (editsManager\<lparr>answerSplitter := rest\<rparr>) (editsMap s2)\<rparr>)))))))"

section \<open>The agent event dispatcher\<close>

text \<open>
  Modelled from the spec: the type \<^verbatim>\<open>SideCarAgentEvent\<close> of \<^verbatim>\<open>server/types\<close> is not
  among the sources. An event is a keep-alive, a start acknowledgement
  \<^verbatim>\<open>{session_id, started}\<close>, a \<^verbatim>\<open>done\<close> marker, or an envelope
  \<^verbatim>\<open>{request_id, exchange_id, event}\<close> whose \<^verbatim>\<open>event\<close> carries exactly one of the keys
  that \<^verbatim>\<open>reportAgentEventsToChat\<close> reads; each datatype has the keys and fields read
  there, and one more constructor for any other key. States and field names are the
  strings the code compares them with. The \<^verbatim>\<open>Edit\<close> sub-step carries the \<^verbatim>\<open>delta\<close> of its
  \<^verbatim>\<open>ThinkingForEdit\<close>, or \<^const>\<open>None\<close> when it has no \<^verbatim>\<open>ThinkingForEdit\<close>, after the
  \<^verbatim>\<open>fs_file_path\<close> and the \<^verbatim>\<open>symbol_name\<close> of the symbol identifier; a
  \<^verbatim>\<open>SymbolEvent\<close> has no effect in any branch, so it carries nothing.
\<close>

datatype exchange_event =
    PlansExchangeState string
  | EditsExchangeState string
  | ExecutionState string
  | FinishedExchange
  | OtherExchangeEvent

datatype tool_input_partial =
    AttemptCompletion
  | ToolOpenFile string
  | AskFollowupQuestions
  | OtherToolInput

datatype framework_event =
    OpenFile string
  | ToolThinking string
  | ToolParameterFound string string
  | ToolUseDetected "tool_input_partial option"
  | ToolCallError string
  | OtherFrameworkEvent

datatype symbol_sub_step =
    GoToDefinition
  | EditSubStep "string option"
  | ProbeSubStep
  | OtherSubStep

datatype plan_event =
    PlanStepTitleAdded nat string
  | PlanStepDescriptionUpdate nat string
  | OtherPlanEvent

datatype ui_event =
    ErrorEvent string
  | ExchangeEvent exchange_event
  | FrameworkEvent framework_event
  | SymbolEvent
  | SymbolEventSubStep string string symbol_sub_step
  | RequestEvent
  | EditRequestFinished
  | ChatEvent "string option"
  | PlanEvent plan_event
  | OtherEvent

datatype SideCarAgentEvent =
    KeepAlive
  | SessionStarted string bool
  | Done
  | Envelope string string ui_event

text \<open>
  How one pass of the loop body ends: \<^verbatim>\<open>continue\<close> (or the end of the body),
  \<^verbatim>\<open>return\<close>, or a throw. \<open>Return True\<close> is a return after
  \<^verbatim>\<open>authCallbacks.onUnauthorized()\<close> has been called: the call is not awaited, and both
  places that make it return from the dispatcher before awaiting anything but a new response
  stream, so the callback's body runs when the dispatcher has returned.
\<close>

datatype control = Continue | Return bool | Throw error

definition wrongFormatMessage :: string where
  "wrongFormatMessage = ''The LLM that you're using right now returned a response that does not adhere to the format our framework expects, and thus this request has failed. If you keep seeing this error, this is likely because the LLM is unable to follow our system instructions and it is recommended to switch over to one of our recommended models instead.''"

definition connectionFailedMessage :: string where
  "connectionFailedMessage = ''Connection error with sidecar. We'd appreciate it if you could report this session using the feedback tool above - this is on us''"

text \<open>\<^verbatim>\<open>responseStream?.stream.f(...)\<close> and \<^verbatim>\<open>latestResponseStream?.stream.stage(...)\<close>\<close>

definition streamCall ::
  "AideAgentEventSenderResponse option \<Rightarrow> stream_call \<Rightarrow> AideAgentSessionProvider
   \<Rightarrow> AideAgentSessionProvider" where
  "streamCall responseStream c s =
     (case responseStream of
        None \<Rightarrow> s
      | Some r \<Rightarrow> emit (StreamCall (stream r) c) s)"

definition stageLatest :: "string \<Rightarrow> AideAgentSessionProvider \<Rightarrow> AideAgentSessionProvider" where
  "stageLatest message s = streamCall (latestResponseStream (streamCollection s)) (Stage message) s"

definition markLastMessageAsComplete ::
  "AideAgentSessionProvider \<Rightarrow> string \<Rightarrow> string \<Rightarrow> AideAgentSessionProvider" where
  "markLastMessageAsComplete s sid eid =
     (case lookupResponseStream s \<lparr>sessionId = sid, exchangeId = eid\<rparr> of
        (responseStream, s1) \<Rightarrow>
          (let s2 = streamCall responseStream MarkLastMessageAsComplete s1
           in s2\<lparr>lastThinkingText := AList.delete (sid @ ''-'' @ eid) (lastThinkingText s2)\<rparr>))"

definition closeAndRemoveResponseStream ::
  "AideAgentSessionProvider \<Rightarrow> string \<Rightarrow> string \<Rightarrow> AideAgentSessionProvider" where
  "closeAndRemoveResponseStream s sid eid =
     (let responseStreamIdentifier = \<lparr>sessionId = sid, exchangeId = eid\<rparr> in
      case lookupResponseStream s responseStreamIdentifier of
        (responseStream, s1) \<Rightarrow>
          (let s2 = streamCall responseStream Close s1;
               s3 = s2\<lparr>streamCollection :=
                         removeResponseStream (streamCollection s2) responseStreamIdentifier\<rparr>
           in s3\<lparr>lastThinkingText := AList.delete (sid @ ''-'' @ eid) (lastThinkingText s3)\<rparr>))"

text \<open>
  \<^verbatim>\<open>const openStreams = getAllResponseStreams(); for (const openStream of openStreams)
  closeAndRemoveResponseStream(sid, openStream.exchangeId);\<close>
\<close>

definition closeOpenStreams :: "AideAgentSessionProvider \<Rightarrow> string \<Rightarrow> AideAgentSessionProvider" where
  "closeOpenStreams s sid =
     foldl (\<lambda>s' openStream. closeAndRemoveResponseStream s' sid (responseExchangeId openStream))
       s (getAllResponseStreams (streamCollection s))"

definition createNewResponseStream ::
  "AideAgentSessionProvider \<Rightarrow> string
   \<Rightarrow> AideAgentEventSenderResponse option \<times> AideAgentSessionProvider" where
  "createNewResponseStream s sid =
     (case newExchangeIdForSession s sid of
        (None, s1) \<Rightarrow> (None, s1)
      | (Some eid, s1) \<Rightarrow>
          if eid = [] then (None, s1)
          else lookupResponseStream s1 \<lparr>sessionId = sid, exchangeId = eid\<rparr>)"

text \<open>\<^verbatim>\<open>latestResponseStream ?? await this.createNewResponseStream(sid)\<close>\<close>

definition latestOrNewResponseStream ::
  "AideAgentSessionProvider \<Rightarrow> string
   \<Rightarrow> AideAgentEventSenderResponse option \<times> AideAgentSessionProvider" where
  "latestOrNewResponseStream s sid =
     (case latestResponseStream (streamCollection s) of
        Some r \<Rightarrow> (Some r, s)
      | None \<Rightarrow> createNewResponseStream s sid)"

definition callErrorCallback :: "bool \<Rightarrow> AideAgentSessionProvider \<Rightarrow> AideAgentSessionProvider" where
  "callErrorCallback errorCallback s = (if errorCallback then emit ErrorCallback s else s)"

text \<open>
  The branches of the loop body of \<^verbatim>\<open>reportAgentEventsToChat\<close>, one definition for
  each. \<open>authCallbacks\<close> is \<^const>\<open>None\<close> when the argument is not given and holds
  \<^verbatim>\<open>hasRetried\<close> otherwise; \<open>errorCallback\<close> says whether that argument is given.
  First the branch \<^verbatim>\<open>if (event.event.Error)\<close>.
\<close>

definition errorEvent ::
  "bool option \<Rightarrow> bool \<Rightarrow> AideAgentSessionProvider \<Rightarrow> string \<Rightarrow> string
   \<Rightarrow> control \<times> AideAgentSessionProvider" where
  "errorEvent authCallbacks errorCallback s request_id message =
     (if endsWith (toLowerCase message) ''cancelled by user''
      then (Return False, closeOpenStreams (stageLatest ''Cancelled'' s) request_id)
      else
        (let unauthorized =
               (includes_str (toLowerCase message) ''unauthorized access'' \<and> authCallbacks \<noteq> None)
         in case latestOrNewResponseStream s request_id of
              (None, s1) \<Rightarrow> (Return unauthorized, s1)
            | (Some r, s1) \<Rightarrow>
                (let s2 = streamCall (Some r)
                            (ToolTypeError
                               (if endsWith (toLowerCase message) ''wrong tool output''
                                then wrongFormatMessage
                                else message @ ''.\<newline>\<newline>We'd appreciate it if you could report this session using the feedback tool above - this is on us. Please try again.''))
                            s1;
                     s3 = streamCall (Some r) (Stage ''Error'') s2;
                     s4 = callErrorCallback errorCallback s3
                 in (Return unauthorized, closeOpenStreams s4 request_id))))"

text \<open>The branch \<^verbatim>\<open>if (event.event.FrameworkEvent)\<close>, with the resolved stream.\<close>

definition toolParameterFound ::
  "AideAgentSessionProvider \<Rightarrow> AideAgentEventSenderResponse \<Rightarrow> string \<Rightarrow> string \<Rightarrow> string \<Rightarrow> string
   \<Rightarrow> AideAgentSessionProvider" where
  "toolParameterFound s responseStream sid eid fieldName field_content_delta =
     (if fieldName = ''fs_file_path'' \<or> fieldName = ''directory_path''
      then streamCall (Some responseStream) (Reference field_content_delta) s
      else if fieldName = ''instruction'' \<or> fieldName = ''result'' \<or> fieldName = ''question''
      then (let s1 = streamCall (Some responseStream)
                       (Markdown (field_content_delta @ ''\<newline>'')) s
            in if fieldName = ''question'' then markLastMessageAsComplete s1 sid eid else s1)
      else if fieldName = ''command''
      then streamCall (Some responseStream)
             (Markdown (''Running command: `'' @ field_content_delta @ ''`\<newline>'')) s
      else if fieldName = ''regex_pattern''
      then streamCall (Some responseStream)
             (Markdown (''\<newline>Searching the codebase: `'' @ field_content_delta @ ''`\<newline>'')) s
      else if fieldName = ''file_pattern''
      then streamCall (Some responseStream)
             (Markdown (''\<newline>Looking for files: `'' @ field_content_delta @ ''`\<newline>'')) s
      else s)"

definition toolCallError ::
  "bool option \<Rightarrow> bool \<Rightarrow> AideAgentSessionProvider \<Rightarrow> AideAgentEventSenderResponse \<Rightarrow> string
   \<Rightarrow> string \<Rightarrow> control \<times> AideAgentSessionProvider" where
  "toolCallError authCallbacks errorCallback s responseStream sid error_string =
     (let s1 =
            (if error_string = ''Cancelled Response''
             then streamCall (Some responseStream) (Stage ''Cancelled'') s
             else if error_string = ''LLM Client error: Unauthorized access to API''
             then (if authCallbacks = Some True
                   then streamCall (Some responseStream) (ToolTypeError ''Invalid session'')
                          (streamCall (Some responseStream) (Stage ''Error'') s)
                   else s)
             else if error_string = ''LLM Client error: Rate limit exceeded''
             then streamCall (Some responseStream)
                    (ToolTypeError ''Usage limit exceeded. Please upgrade.'')
                    (streamCall (Some responseStream) (Stage ''Error'') s)
             else callErrorCallback errorCallback
                    (streamCall (Some responseStream) (Stage ''Error'')
                       (streamCall (Some responseStream) (ToolTypeError wrongFormatMessage) s)));
          s2 = closeOpenStreams s1 sid
      in (Return (error_string = ''LLM Client error: Unauthorized access to API''
                    \<and> authCallbacks \<noteq> None), s2))"

definition frameworkEvent ::
  "bool option \<Rightarrow> bool \<Rightarrow> AideAgentSessionProvider \<Rightarrow> AideAgentEventSenderResponse \<Rightarrow> string
   \<Rightarrow> string \<Rightarrow> framework_event \<Rightarrow> control \<times> AideAgentSessionProvider" where
  "frameworkEvent authCallbacks errorCallback s responseStream sid eid fe =
     (case fe of
        OpenFile filePath \<Rightarrow>
          (Continue,
           if filePath = [] then s else streamCall (Some responseStream) (Reference filePath) s)
      | ToolThinking currentText \<Rightarrow>
          (let key = sid @ ''-'' @ eid;
               lastText = (case map_of (lastThinkingText s) key of
                             None \<Rightarrow> []
                           | Some t \<Rightarrow> t);
               delta = drop (length lastText) currentText;
               s1 = (if delta = [] then s
                     else streamCall (Some responseStream) (Markdown (delta @ ''\<newline>'')) s)
           in (Continue, s1\<lparr>lastThinkingText := AList.update key currentText (lastThinkingText s1)\<rparr>))
      | ToolParameterFound fieldName field_content_delta \<Rightarrow>
          (Continue, toolParameterFound s responseStream sid eid fieldName field_content_delta)
      | ToolUseDetected toolUsePartialInput \<Rightarrow>
          (case toolUsePartialInput of
             None \<Rightarrow> (Continue, s)
           | Some AttemptCompletion \<Rightarrow>
               (Return False,
                closeOpenStreams (streamCall (Some responseStream) (Stage ''Complete'') s) sid)
           | Some (ToolOpenFile filePath) \<Rightarrow>
               (Continue,
                if filePath = [] then s else streamCall (Some responseStream) (Reference filePath) s)
           | Some AskFollowupQuestions \<Rightarrow>
               (Continue,
                closeOpenStreams (streamCall (Some responseStream) (Stage ''Complete'') s) sid)
           | Some OtherToolInput \<Rightarrow> (Continue, s))
      | ToolCallError error_string \<Rightarrow>
          toolCallError authCallbacks errorCallback s responseStream sid error_string
      | OtherFrameworkEvent \<Rightarrow> (Continue, s))"

text \<open>
  The branch \<^verbatim>\<open>if (event.event.SymbolEventSubStep)\<close>: only the \<^verbatim>\<open>Edit\<close> sub-step of a
  symbol that has a path or a name writes to the stream; reading \<^verbatim>\<open>delta\<close> of a missing
  \<^verbatim>\<open>ThinkingForEdit\<close> throws.
\<close>

definition symbolEventSubStep ::
  "AideAgentSessionProvider \<Rightarrow> AideAgentEventSenderResponse \<Rightarrow> string \<Rightarrow> string \<Rightarrow> symbol_sub_step
   \<Rightarrow> control \<times> AideAgentSessionProvider" where
  "symbolEventSubStep s responseStream symbolPath symbolName sub =
     (case sub of
        GoToDefinition \<Rightarrow> (Continue, s)
      | EditSubStep thinkingForEdit \<Rightarrow>
          (if symbolPath = [] \<and> symbolName = [] then (Continue, s)
           else case thinkingForEdit of
                  None \<Rightarrow>
                    (Throw (TypeError ''Cannot read properties of undefined (reading 'delta')''), s)
                | Some delta \<Rightarrow>
                    (Continue,
                     if delta = [] then s else streamCall (Some responseStream) (Markdown delta) s))
      | ProbeSubStep \<Rightarrow> (Continue, s)
      | OtherSubStep \<Rightarrow> (Continue, s))"

text \<open>
  The branches \<^verbatim>\<open>ChatEvent\<close>, \<^verbatim>\<open>PlanEvent\<close> and \<^verbatim>\<open>ExchangeEvent\<close> look the stream up
  again.
\<close>

definition planEvent ::
  "AideAgentSessionProvider \<Rightarrow> string \<Rightarrow> string \<Rightarrow> plan_event
   \<Rightarrow> control \<times> AideAgentSessionProvider" where
  "planEvent s sid eid pe =
     (case lookupResponseStream s \<lparr>sessionId = sid, exchangeId = eid\<rparr> of
        (responseStream, s1) \<Rightarrow>
          (case pe of
             PlanStepTitleAdded i title \<Rightarrow>
               (Continue,
                streamCall responseStream (Step i (''### '' @ title))
                  (streamCall responseStream (Stage ''Planning'') s1))
           | PlanStepDescriptionUpdate i delta \<Rightarrow>
               (Continue, streamCall responseStream (Step i (''\<newline>'' @ delta)) s1)
           | OtherPlanEvent \<Rightarrow> (Continue, s1)))"

definition exchangeEvent ::
  "AideAgentSessionProvider \<Rightarrow> string \<Rightarrow> string \<Rightarrow> exchange_event
   \<Rightarrow> control \<times> AideAgentSessionProvider" where
  "exchangeEvent s sid eid ee =
     (case lookupResponseStream s \<lparr>sessionId = sid, exchangeId = eid\<rparr> of
        (responseStream, s1) \<Rightarrow>
          (case ee of
             PlansExchangeState editsState \<Rightarrow>
               (if editsState = ''Loading''
                then (Continue, streamCall responseStream (Stage ''Planning'') s1)
                else if editsState = ''Cancelled''
                then (Continue,
                      markLastMessageAsComplete
                        (streamCall responseStream (Stage ''Cancelled'') s1) sid eid)
                else if editsState = ''MarkedComplete''
                then (Return False,
                      closeAndRemoveResponseStream
                        (streamCall responseStream (Stage ''Complete'') s1) sid eid)
                else if editsState = ''Accepted''
                then (Continue, streamCall responseStream (Stage ''Accepted'') s1)
                else (Continue, s1))
           | EditsExchangeState editsState \<Rightarrow>
               (if editsState = ''Loading''
                then (Continue, streamCall responseStream (Stage ''Editing'') s1)
                else if editsState = ''Cancelled''
                then (Continue,
                      markLastMessageAsComplete
                        (streamCall responseStream (Stage ''Cancelled'') s1) sid eid)
                else if editsState = ''MarkedComplete''
                then (Return False,
                      closeAndRemoveResponseStream
                        (streamCall responseStream (Stage ''Complete'') s1) sid eid)
                else (Continue, s1))
           | ExecutionState executionState \<Rightarrow>
               (if executionState = [] then (Continue, s1)
                else if executionState = ''Inference''
                then (Continue, streamCall responseStream (Stage ''Reasoning'') s1)
                else if executionState = ''InReview''
                then (Continue, streamCall responseStream (Stage ''Review'') s1)
                else if executionState = ''Cancelled''
                then (Continue,
                      markLastMessageAsComplete
                        (streamCall responseStream (Stage ''Cancelled'') s1) sid eid)
                else (Continue, s1))
           | FinishedExchange \<Rightarrow>
               (Continue,
                closeAndRemoveResponseStream
                  (streamCall responseStream (Stage ''Complete'') s1) sid eid)
           | OtherExchangeEvent \<Rightarrow> (Continue, s1)))"

text \<open>
  The part of the loop body after the tests for an error and for a cancelled execution
  state: the lookup of the stream of the event, the first stage of the exchange, and the
  branch of the event.
\<close>

definition resolvedEvent ::
  "bool option \<Rightarrow> bool \<Rightarrow> AideAgentSessionProvider \<Rightarrow> bool \<Rightarrow> string \<Rightarrow> string \<Rightarrow> ui_event
   \<Rightarrow> control \<times> bool \<times> AideAgentSessionProvider" where
  "resolvedEvent authCallbacks errorCallback s streamStarted sid eid ev =
     (case lookupResponseStream s \<lparr>sessionId = sid, exchangeId = eid\<rparr> of
        (None, s1) \<Rightarrow> (Continue, streamStarted, s1)
      | (Some responseStream, s1) \<Rightarrow>
          (let key = sid @ ''-'' @ eid;
               s2 = (if key \<in> set (startedStreams s1) then s1
                     else (streamCall (Some responseStream) (Stage ''Loading...'') s1)
                            \<lparr>startedStreams := startedStreams s1 @ [key]\<rparr>);
               (c, s3) =
                 (case ev of
                    FrameworkEvent fe \<Rightarrow>
                      frameworkEvent authCallbacks errorCallback s2 responseStream sid eid fe
                  | SymbolEvent \<Rightarrow> (Continue, s2)
                  | SymbolEventSubStep symbolPath symbolName sub \<Rightarrow>
                      symbolEventSubStep s2 responseStream symbolPath symbolName sub
                  | RequestEvent \<Rightarrow> (Continue, s2)
                  | EditRequestFinished \<Rightarrow> (Continue, s2)
                  | ChatEvent delta \<Rightarrow>
                      (case lookupResponseStream s2 \<lparr>sessionId = sid, exchangeId = eid\<rparr> of
                         (responseStream', s2') \<Rightarrow>
                           (Continue,
                            case delta of
                              None \<Rightarrow> s2'
                            | Some d \<Rightarrow> streamCall responseStream' (Markdown d) s2'))
                  | PlanEvent pe \<Rightarrow> planEvent s2 sid eid pe
                  | ExchangeEvent ee \<Rightarrow> exchangeEvent s2 sid eid ee
                  | ErrorEvent message \<Rightarrow> (Continue, s2)
                  | OtherEvent \<Rightarrow> (Continue, s2))
           in (c, True, s3)))"

text \<open>
  The loop body. The value is how the pass ends, the variable \<^verbatim>\<open>streamStarted\<close> and the
  state.
\<close>

definition dispatchEvent ::
  "bool option \<Rightarrow> bool \<Rightarrow> AideAgentSessionProvider \<Rightarrow> bool \<Rightarrow> SideCarAgentEvent
   \<Rightarrow> control \<times> bool \<times> AideAgentSessionProvider" where
  "dispatchEvent authCallbacks errorCallback s streamStarted e =
     (case e of
        KeepAlive \<Rightarrow> (Continue, streamStarted, s)
      | SessionStarted session started \<Rightarrow>
          (if \<not> started then (Throw (SidecarConnectionFailedError connectionFailedMessage), False, s)
           else (Continue, streamStarted, s))
      | Done \<Rightarrow> (Continue, streamStarted, s)
      | Envelope event_request_id event_exchange_id ev \<Rightarrow>
          (case ev of
             ErrorEvent message \<Rightarrow>
               (case errorEvent authCallbacks errorCallback s event_request_id message of
                  (c, s1) \<Rightarrow>
                    (c, if endsWith (toLowerCase message) ''cancelled by user'' then True
                        else streamStarted, s1))
           | _ \<Rightarrow>
               (if ev = ExchangeEvent (ExecutionState ''Cancelled'')
                then (Continue, True, closeOpenStreams (stageLatest ''Cancelled'' s) event_request_id)
                else resolvedEvent authCallbacks errorCallback s streamStarted
                       event_request_id event_exchange_id ev)))"

text \<open>The \<^verbatim>\<open>for await\<close> loop over the events the stream yields.\<close>

fun dispatchLoop ::
  "bool option \<Rightarrow> bool \<Rightarrow> AideAgentSessionProvider \<Rightarrow> bool \<Rightarrow> SideCarAgentEvent list
   \<Rightarrow> control \<times> bool \<times> AideAgentSessionProvider" where
  "dispatchLoop authCallbacks errorCallback s streamStarted [] = (Continue, streamStarted, s)"
| "dispatchLoop authCallbacks errorCallback s streamStarted (e # es) =
     (case dispatchEvent authCallbacks errorCallback s streamStarted e of
        (Continue, streamStarted', s') \<Rightarrow>
          dispatchLoop authCallbacks errorCallback s' streamStarted' es
      | (Return u, streamStarted', s') \<Rightarrow> (Return u, streamStarted', s')
      | (Throw err, streamStarted', s') \<Rightarrow> (Throw err, streamStarted', s'))"

text \<open>
  The \<^verbatim>\<open>catch\<close> block of \<^verbatim>\<open>reportAgentEventsToChat\<close>, and the function. The value is
  the error the function throws, if any, whether \<^verbatim>\<open>onUnauthorized\<close> has been called, and
  the state.
\<close>

definition reportCatch ::
  "bool \<Rightarrow> AideAgentSessionProvider \<Rightarrow> string \<Rightarrow> error
   \<Rightarrow> error option \<times> bool \<times> AideAgentSessionProvider" where
  "reportCatch errorCallback s sid err =
     (case latestOrNewResponseStream s sid of
        (None, s1) \<Rightarrow> (Some err, False, s1)
      | (Some r, s1) \<Rightarrow>
          (let s2 = streamCall (Some r) (ToolTypeError (error_message err @ ''. Please try again.'')) s1;
               s3 = streamCall (Some r) (Stage ''Error'') s2;
               s4 = callErrorCallback errorCallback s3
           in (None, False, closeOpenStreams s4 sid)))"

definition reportAgentEventsToChat ::
  "bool option \<Rightarrow> bool \<Rightarrow> AideAgentSessionProvider \<Rightarrow> string \<Rightarrow> SideCarAgentEvent list
   \<Rightarrow> error option \<times> bool \<times> AideAgentSessionProvider" where
  "reportAgentEventsToChat authCallbacks errorCallback s sid events =
     (case dispatchLoop authCallbacks errorCallback s False events of
        (Return u, streamStarted, s') \<Rightarrow> (None, u, s')
      | (Continue, streamStarted, s') \<Rightarrow>
          (if streamStarted then (None, False, s')
           else reportCatch errorCallback s' sid (SidecarConnectionFailedError connectionFailedMessage))
      | (Throw err, streamStarted, s') \<Rightarrow> reportCatch errorCallback s' sid err)"

section \<open>The session driver\<close>

text \<open>
  \<^verbatim>\<open>vscode.AideAgentMode\<close>, \<^verbatim>\<open>vscode.AideAgentScope\<close> and the fields of a
  \<^verbatim>\<open>vscode.AideAgentRequest\<close> that \<^verbatim>\<open>streamResponse\<close> reads and that tell one call of
  the sidecar client from another (the references and the devtools flag are handed on
  unread).
\<close>

datatype AideAgentMode = Chat | Edit | Plan | Agentic

datatype AideAgentScope = Selection | PinnedContext | Codebase

record AideAgentRequest =
  request_prompt :: string
  request_sessionId :: string
  request_exchangeId :: string
  request_mode :: AideAgentMode
  request_scope :: AideAgentScope

text \<open>
  The calls that leave the provider from \<^verbatim>\<open>processEvent\<close> and \<^verbatim>\<open>streamResponse\<close>, in
  order: the calls of the sidecar client, and the \<^verbatim>\<open>hardCheck\<close> of every
  \<^verbatim>\<open>vscode.csAuthentication.getSession\<close>. The dispatcher makes neither.
\<close>

record session_log =
  sidecarCalls :: "sidecar_call list"
  sessionChecks :: "bool list"

definition sidecarMethod :: "AideAgentRequest \<Rightarrow> sidecar_method" where
  "sidecarMethod request =
     (case request_mode request of
        Chat \<Rightarrow> AgentSessionChat
      | Edit \<Rightarrow>
          (if request_scope request = Selection then AgentSessionAnchoredEdit
           else AgentSessionPlanStep (request_scope request = Codebase))
      | Plan \<Rightarrow> AgentSessionPlanStep False
      | Agentic \<Rightarrow> AgentSessionPlanStep False)"

text \<open>\<^verbatim>\<open>session?.accessToken ?? ''\<close>\<close>

definition accessToken :: "string option \<Rightarrow> string" where
  "accessToken session = (case session of None \<Rightarrow> [] | Some token \<Rightarrow> token)"

text \<open>The \<^verbatim>\<open>catch\<close> block of \<^verbatim>\<open>streamResponse\<close>.\<close>

definition streamResponseCatch ::
  "AideAgentSessionProvider \<Rightarrow> string \<Rightarrow> error \<Rightarrow> error option \<times> AideAgentSessionProvider" where
  "streamResponseCatch s sid err =
     (case latestOrNewResponseStream s sid of
        (None, s1) \<Rightarrow> (Some err, s1)
      | (Some r, s1) \<Rightarrow>
          (let s2 = streamCall (Some r) (ToolTypeError (error_message err @ ''. Please try again.'')) s1;
               s3 = streamCall (Some r) (Stage ''Error'') s2
           in (None, closeOpenStreams s3 sid)))"

text \<open>
  The \<^verbatim>\<open>try\<close> statement of \<^verbatim>\<open>streamResponse\<close>: one call of the sidecar client, whose
  events \<open>sidecar\<close> gives, handed to the dispatcher with \<^verbatim>\<open>authCallbacks\<close>. The value is
  the error thrown, whether the dispatcher has called \<^verbatim>\<open>onUnauthorized\<close>, and the state.
\<close>

definition streamResponseTry ::
  "(sidecar_call \<Rightarrow> SideCarAgentEvent list) \<Rightarrow> AideAgentSessionProvider \<times> session_log
   \<Rightarrow> AideAgentRequest \<Rightarrow> string \<Rightarrow> string \<Rightarrow> string \<Rightarrow> bool
   \<Rightarrow> error option \<times> bool \<times> AideAgentSessionProvider \<times> session_log" where
  "streamResponseTry sidecar st request sid url workosAccessToken hasRetried =
     (let call = \<lparr>call_method = sidecarMethod request, call_prompt = request_prompt request,
                  call_sessionId = sid, call_exchangeId = request_exchangeId request,
                  call_editorUrl = url, call_accessToken = workosAccessToken,
                  call_hasRetried = hasRetried\<rparr>;
          log = (snd st)\<lparr>sidecarCalls := sidecarCalls (snd st) @ [call]\<rparr>
      in case reportAgentEventsToChat (Some hasRetried) False (fst st) sid (sidecar call) of
           (None, u, s1) \<Rightarrow> (None, u, s1, log)
         | (Some err, u, s1) \<Rightarrow>
             (case streamResponseCatch s1 sid err of (e, s2) \<Rightarrow> (e, u, s2, log)))"

text \<open>
  \<^verbatim>\<open>streamResponse\<close>. When the dispatcher has called \<^verbatim>\<open>onUnauthorized\<close>, the callback
  returns at once if \<^verbatim>\<open>hasRetried\<close>; otherwise it asks for a session with
  \<^verbatim>\<open>hardCheck: true\<close> (\<open>getSession\<close> gives the token of the session, if there is one) and
  calls \<^verbatim>\<open>streamResponse\<close> with the new token and \<^verbatim>\<open>hasRetried = true\<close>. Nothing awaits
  the callback: an error of the second activation is not the error of the first.
\<close>

function streamResponse ::
  "(sidecar_call \<Rightarrow> SideCarAgentEvent list) \<Rightarrow> (bool \<Rightarrow> string option)
   \<Rightarrow> AideAgentSessionProvider \<times> session_log \<Rightarrow> AideAgentRequest \<Rightarrow> string \<Rightarrow> string \<Rightarrow> string
   \<Rightarrow> bool \<Rightarrow> error option \<times> AideAgentSessionProvider \<times> session_log" where
  "streamResponse sidecar getSession st request sid url workosAccessToken hasRetried =
     (case streamResponseTry sidecar st request sid url workosAccessToken hasRetried of
        (e, u, s1, log1) \<Rightarrow>
          (if u \<and> \<not> hasRetried
           then (let log2 = log1\<lparr>sessionChecks := sessionChecks log1 @ [True]\<rparr>;
                     newToken = accessToken (getSession True)
                 in (e, snd (streamResponse sidecar getSession (s1, log2) request sid url newToken True)))
           else (e, s1, log1)))"
  by pat_completeness auto
termination
  by (relation "measure (\<lambda>(sidecar, getSession, st, request, sid, url, token, hasRetried).
        if hasRetried then 0 else 1)") auto

declare streamResponse.simps [simp del]

text \<open>\<^verbatim>\<open>processEvent\<close> (the capture of the launch metric is left out).\<close>

definition processEvent ::
  "(sidecar_call \<Rightarrow> SideCarAgentEvent list) \<Rightarrow> (bool \<Rightarrow> string option)
   \<Rightarrow> AideAgentSessionProvider \<times> session_log \<Rightarrow> AideAgentRequest
   \<Rightarrow> error option \<times> AideAgentSessionProvider \<times> session_log" where
  "processEvent sidecar getSession st request =
     (case editorUrl (fst st) of
        None \<Rightarrow> (None, st)
      | Some url \<Rightarrow>
          (let log1 = (snd st)\<lparr>sessionChecks := sessionChecks (snd st) @ [False]\<rparr>;
               token = accessToken (getSession False)
           in streamResponse sidecar getSession (fst st, log1) request (request_sessionId request)
                url token False))"

section \<open>Example states\<close>

text \<open>A provider with one registered stream: session \<open>s\<close>, exchange \<open>x\<close>, stream 7.\<close>

definition thinking_example :: AideAgentSessionProvider where
  "thinking_example =
     snd (newExchangeIdForSession
            (newProvider [Some \<lparr>responseExchangeId = ''x'', stream = 7\<rparr>] [] []) ''s'')"

text \<open>The same provider after a lookup of the stream, which makes it the latest.\<close>

definition cancel_example :: AideAgentSessionProvider where
  "cancel_example =
     snd (lookupResponseStream thinking_example \<lparr>sessionId = ''s'', exchangeId = ''x''\<rparr>)"




text \<open>
  An error message of an authorization failure, a request, and a sidecar that answers
  every call, the first and the retried one, with that error.
\<close>

definition unauthorized_message :: string where
  "unauthorized_message = ''Unauthorized access''"

definition chat_request :: AideAgentRequest where
  "chat_request =
     \<lparr>request_prompt = ''hi'', request_sessionId = ''s'', request_exchangeId = ''x'',
      request_mode = Chat, request_scope = Selection\<rparr>"

definition unauthorized_sidecar :: "sidecar_call \<Rightarrow> SideCarAgentEvent list" where
  "unauthorized_sidecar call = [KeepAlive, Envelope ''s'' ''x'' (ErrorEvent unauthorized_message), Done]"

text \<open>
  A provider whose only registered stream is that of session \<open>a-b\<close>, exchange \<open>c\<close>, on
  stream 3.
\<close>

definition collision_example :: AideAgentSessionProvider where
  "collision_example =
     snd (newExchangeIdForSession
            (newProvider [Some \<lparr>responseExchangeId = ''c'', stream = 3\<rparr>] [] []) ''a-b'')"

section \<open>Properties of the collection\<close>

lemma length_AList_update:
  "length (AList.update k v al) = (if k \<in> fst ` set al then length al else Suc (length al))"
  by (induction al) auto

lemma map_of_addResponseStream:
  "map_of (responseStreamCollection (addResponseStream c k h)) =
     (map_of (responseStreamCollection c))(getKey k \<mapsto> h)"
  by (simp add: addResponseStream_def update_conv')

lemma map_of_removeResponseStream:
  "map_of (responseStreamCollection (removeResponseStream c k)) =
     (map_of (responseStreamCollection c))(getKey k := None)"
  by (simp add: removeResponseStream_def Let_def delete_conv')

lemma responseStreamCollection_getResponseStream:
  "responseStreamCollection (snd (getResponseStream c k)) = responseStreamCollection c"
  by (simp add: getResponseStream_def Let_def split: option.splits)

lemma latest_registered_add: "latest_registered c \<Longrightarrow> latest_registered (addResponseStream c k h)"
  unfolding latest_registered_def
  by (auto simp: addResponseStream_def update_conv' split: option.splits)

lemma latest_registered_get: "latest_registered c \<Longrightarrow> latest_registered (snd (getResponseStream c k))"
  unfolding latest_registered_def
  by (auto simp: getResponseStream_def Let_def split: option.splits)

lemma latest_registered_remove: "latest_registered c \<Longrightarrow> latest_registered (removeResponseStream c k)"
  unfolding latest_registered_def
  by (auto simp: removeResponseStream_def Let_def delete_conv' split: option.splits)

lemma latest_registered_step: "latest_registered c \<Longrightarrow> latest_registered (collection_step c call)"
  by (cases call) (simp_all add: latest_registered_add latest_registered_get latest_registered_remove)

lemma latest_registered_foldl:
  "latest_registered c \<Longrightarrow> latest_registered (foldl collection_step c calls)"
  by (induction calls arbitrary: c) (simp_all add: latest_registered_step)

lemma latest_registered_run: "latest_registered (collection_run calls)"
  unfolding collection_run_def
  by (rule latest_registered_foldl) (simp add: latest_registered_def newAideResponseStreamCollection_def)

text \<open>
  Claim C2. For every identifier \<open>k\<close>, every handle \<open>h\<close> and every collection,
  \<^verbatim>\<open>addResponseStream(k, h)\<close> followed by \<^verbatim>\<open>getResponseStream(k)\<close> returns \<open>h\<close>, and
  \<^verbatim>\<open>addResponseStream(k, h)\<close>, \<^verbatim>\<open>removeResponseStream(k)\<close> followed by
  \<^verbatim>\<open>getResponseStream(k)\<close> returns \<^verbatim>\<open>undefined\<close>.
\<close>

theorem register_lookup_remove:
  "fst (getResponseStream (addResponseStream c k h) k) = Some h \<and>
   fst (getResponseStream (removeResponseStream (addResponseStream c k h) k) k) = None"
proof
  have "map_of (responseStreamCollection (addResponseStream c k h)) (getKey k) = Some h"
    by (simp add: map_of_addResponseStream)
  then show "fst (getResponseStream (addResponseStream c k h) k) = Some h"
    by (simp add: getResponseStream_def Let_def)
next
  have "map_of (responseStreamCollection (removeResponseStream (addResponseStream c k h) k)) (getKey k) = None"
    by (simp add: map_of_removeResponseStream)
  then show "fst (getResponseStream (removeResponseStream (addResponseStream c k h) k) k) = None"
    by (simp add: getResponseStream_def Let_def)
qed

theorem register_lookup_remove_witness:
  "fst (getResponseStream
          (addResponseStream newAideResponseStreamCollection
             \<lparr>sessionId = ''s'', exchangeId = ''x''\<rparr> \<lparr>responseExchangeId = ''x'', stream = 0\<rparr>)
          \<lparr>sessionId = ''s'', exchangeId = ''x''\<rparr>)
     = Some \<lparr>responseExchangeId = ''x'', stream = 0\<rparr>"
  using register_lookup_remove
    [of newAideResponseStreamCollection "\<lparr>sessionId = ''s'', exchangeId = ''x''\<rparr>"
        "\<lparr>responseExchangeId = ''x'', stream = 0\<rparr>"]
  by simp

text \<open>
  Claim C8. The claim speaks of identifiers; the latest reference holds the joined
  string of the last successful \<^verbatim>\<open>getResponseStream\<close>, and \<^verbatim>\<open>removeResponseStream\<close>
  compares that string with the joined string of its argument. So removing an identifier
  that is not the one looked up last, but has the same joined string, clears the latest
  reference. What holds: in every collection that a sequence of calls builds from the
  empty one, if the latest reference holds the joined string of \<open>k\<close>, then after
  \<^verbatim>\<open>removeResponseStream(k)\<close> the latest reference is \<^verbatim>\<open>undefined\<close>; in every collection,
  removing a \<open>k\<close> whose joined string is not that of the latest reference leaves the
  latest reference as it was; and in every collection, a successful lookup of \<open>k\<close> makes
  its handle the latest, and \<^verbatim>\<open>removeResponseStream(k)\<close> right after it leaves the latest
  reference \<^verbatim>\<open>undefined\<close>.
\<close>

theorem remove_latest:
  "(map_option fst (latestResponseStreamEntry (collection_run calls)) = Some (getKey k) \<longrightarrow>
      latestResponseStreamEntry (removeResponseStream (collection_run calls) k) = None \<and>
      latestResponseStream (removeResponseStream (collection_run calls) k) = None) \<and>
   (map_option fst (latestResponseStreamEntry c) \<noteq> Some (getKey k) \<longrightarrow>
      latestResponseStreamEntry (removeResponseStream c k) = latestResponseStreamEntry c \<and>
      latestResponseStream (removeResponseStream c k) = latestResponseStream c) \<and>
   (fst (getResponseStream c k) = Some h \<longrightarrow>
      latestResponseStream (snd (getResponseStream c k)) = Some h \<and>
      latestResponseStream (removeResponseStream (snd (getResponseStream c k)) k) = None)"
proof (intro conjI impI)
  assume found: "fst (getResponseStream c k) = Some h"
  then have reg: "map_of (responseStreamCollection c) (getKey k) = Some h"
    by (simp add: getResponseStream_def Let_def split: option.splits)
  then show "latestResponseStream (snd (getResponseStream c k)) = Some h"
    by (simp add: getResponseStream_def Let_def latestResponseStream_def)
  from reg show "latestResponseStream (removeResponseStream (snd (getResponseStream c k)) k) = None"
    by (simp add: getResponseStream_def removeResponseStream_def Let_def latestResponseStream_def)
next
  assume latest: "map_option fst (latestResponseStreamEntry (collection_run calls)) = Some (getKey k)"
  have "latest_registered (collection_run calls)"
    by (rule latest_registered_run)
  with latest have "map_of (responseStreamCollection (collection_run calls)) (getKey k) \<noteq> None"
    by (auto simp: latest_registered_def split: option.splits)
  with latest show none:
    "latestResponseStreamEntry (removeResponseStream (collection_run calls) k) = None"
    by (simp add: removeResponseStream_def Let_def)
  then show "latestResponseStream (removeResponseStream (collection_run calls) k) = None"
    by (simp add: latestResponseStream_def)
next
  assume other: "map_option fst (latestResponseStreamEntry c) \<noteq> Some (getKey k)"
  then show same: "latestResponseStreamEntry (removeResponseStream c k) = latestResponseStreamEntry c"
    by (simp add: removeResponseStream_def Let_def)
  then show "latestResponseStream (removeResponseStream c k) = latestResponseStream c"
    by (simp add: latestResponseStream_def)
qed

theorem remove_latest_witness:
  "map_option fst (latestResponseStreamEntry
      (collection_run
        [AddResponseStream \<lparr>sessionId = ''s'', exchangeId = ''x''\<rparr> \<lparr>responseExchangeId = ''x'', stream = 0\<rparr>,
         AddResponseStream \<lparr>sessionId = ''s'', exchangeId = ''y''\<rparr> \<lparr>responseExchangeId = ''y'', stream = 1\<rparr>,
         GetResponseStream \<lparr>sessionId = ''s'', exchangeId = ''x''\<rparr>]))
     = Some (getKey \<lparr>sessionId = ''s'', exchangeId = ''x''\<rparr>) \<and>
   latestResponseStream (removeResponseStream
      (collection_run
        [AddResponseStream \<lparr>sessionId = ''s'', exchangeId = ''x''\<rparr> \<lparr>responseExchangeId = ''x'', stream = 0\<rparr>,
         AddResponseStream \<lparr>sessionId = ''s'', exchangeId = ''y''\<rparr> \<lparr>responseExchangeId = ''y'', stream = 1\<rparr>,
         GetResponseStream \<lparr>sessionId = ''s'', exchangeId = ''x''\<rparr>])
      \<lparr>sessionId = ''s'', exchangeId = ''x''\<rparr>) = None \<and>
   map_option fst (latestResponseStreamEntry
      (collection_run
        [AddResponseStream \<lparr>sessionId = ''s'', exchangeId = ''x''\<rparr> \<lparr>responseExchangeId = ''x'', stream = 0\<rparr>,
         AddResponseStream \<lparr>sessionId = ''s'', exchangeId = ''y''\<rparr> \<lparr>responseExchangeId = ''y'', stream = 1\<rparr>,
         GetResponseStream \<lparr>sessionId = ''s'', exchangeId = ''x''\<rparr>]))
     \<noteq> Some (getKey \<lparr>sessionId = ''s'', exchangeId = ''y''\<rparr>) \<and>
   latestResponseStream (removeResponseStream
      (collection_run
        [AddResponseStream \<lparr>sessionId = ''s'', exchangeId = ''x''\<rparr> \<lparr>responseExchangeId = ''x'', stream = 0\<rparr>,
         AddResponseStream \<lparr>sessionId = ''s'', exchangeId = ''y''\<rparr> \<lparr>responseExchangeId = ''y'', stream = 1\<rparr>,
         GetResponseStream \<lparr>sessionId = ''s'', exchangeId = ''x''\<rparr>])
      \<lparr>sessionId = ''s'', exchangeId = ''y''\<rparr>) = Some \<lparr>responseExchangeId = ''x'', stream = 0\<rparr>"
proof -
  let ?kx = "\<lparr>sessionId = ''s'', exchangeId = ''x''\<rparr>"
  let ?ky = "\<lparr>sessionId = ''s'', exchangeId = ''y''\<rparr>"
  let ?calls = "[AddResponseStream ?kx \<lparr>responseExchangeId = ''x'', stream = 0\<rparr>,
                 AddResponseStream ?ky \<lparr>responseExchangeId = ''y'', stream = 1\<rparr>,
                 GetResponseStream ?kx]"
  have run: "collection_run ?calls =
      \<lparr>responseStreamCollection =
         [(''s-x'', \<lparr>responseExchangeId = ''x'', stream = 0\<rparr>),
          (''s-y'', \<lparr>responseExchangeId = ''y'', stream = 1\<rparr>)],
       latestResponseStreamEntry = Some (''s-x'', \<lparr>responseExchangeId = ''x'', stream = 0\<rparr>),
       subscriptions = [?kx, ?ky]\<rparr>"
    by (simp add: collection_run_def newAideResponseStreamCollection_def addResponseStream_def
        getResponseStream_def getKey_def Let_def)
  have kx: "getKey ?kx = ''s-x''" and ky: "getKey ?ky = ''s-y''"
    by (simp_all add: getKey_def)
  have a: "map_option fst (latestResponseStreamEntry (collection_run ?calls)) = Some (getKey ?kx)"
    unfolding run kx by simp
  have b: "map_option fst (latestResponseStreamEntry (collection_run ?calls)) \<noteq> Some (getKey ?ky)"
    unfolding run ky by simp
  have l: "latestResponseStream (collection_run ?calls) = Some \<lparr>responseExchangeId = ''x'', stream = 0\<rparr>"
    unfolding run latestResponseStream_def by simp
  from a b l remove_latest [of ?calls ?kx "collection_run ?calls"]
    remove_latest [of ?calls ?ky "collection_run ?calls"]
  show ?thesis by simp
qed

theorem remove_latest_counterexample:
  "\<lparr>sessionId = ''a'', exchangeId = ''b-c''\<rparr> \<noteq> \<lparr>sessionId = ''a-b'', exchangeId = ''c''\<rparr> \<and>
   latestResponseStream
     (snd (getResponseStream
        (addResponseStream newAideResponseStreamCollection
           \<lparr>sessionId = ''a-b'', exchangeId = ''c''\<rparr> \<lparr>responseExchangeId = ''c'', stream = 0\<rparr>)
        \<lparr>sessionId = ''a-b'', exchangeId = ''c''\<rparr>))
     = Some \<lparr>responseExchangeId = ''c'', stream = 0\<rparr> \<and>
   latestResponseStream
     (removeResponseStream
        (snd (getResponseStream
           (addResponseStream newAideResponseStreamCollection
              \<lparr>sessionId = ''a-b'', exchangeId = ''c''\<rparr> \<lparr>responseExchangeId = ''c'', stream = 0\<rparr>)
           \<lparr>sessionId = ''a-b'', exchangeId = ''c''\<rparr>))
        \<lparr>sessionId = ''a'', exchangeId = ''b-c''\<rparr>)
     = None"
  by (simp add: newAideResponseStreamCollection_def addResponseStream_def getResponseStream_def
      removeResponseStream_def latestResponseStream_def getKey_def Let_def)

text \<open>
  Claim C9. \<^verbatim>\<open>getKey\<close> is not injective: the distinct identifiers \<open>(a-b, c)\<close> and
  \<open>(a, b-c)\<close> have the composite key \<open>a-b-c\<close>. In every collection, a handle added under
  the second after a handle added under the first takes its entry (the map has as many
  entries as before the second call), and \<^verbatim>\<open>getResponseStream\<close> of either identifier
  returns the handle added last.
\<close>

theorem getKey_collision:
  "\<lparr>sessionId = ''a-b'', exchangeId = ''c''\<rparr> \<noteq> \<lparr>sessionId = ''a'', exchangeId = ''b-c''\<rparr> \<and>
   getKey \<lparr>sessionId = ''a-b'', exchangeId = ''c''\<rparr> = ''a-b-c'' \<and>
   getKey \<lparr>sessionId = ''a'', exchangeId = ''b-c''\<rparr> = ''a-b-c'' \<and>
   \<not> inj getKey \<and>
   (\<forall>c h1 h2.
      fst (getResponseStream
             (addResponseStream (addResponseStream c \<lparr>sessionId = ''a-b'', exchangeId = ''c''\<rparr> h1)
                \<lparr>sessionId = ''a'', exchangeId = ''b-c''\<rparr> h2)
             \<lparr>sessionId = ''a-b'', exchangeId = ''c''\<rparr>) = Some h2 \<and>
      fst (getResponseStream
             (addResponseStream (addResponseStream c \<lparr>sessionId = ''a-b'', exchangeId = ''c''\<rparr> h1)
                \<lparr>sessionId = ''a'', exchangeId = ''b-c''\<rparr> h2)
             \<lparr>sessionId = ''a'', exchangeId = ''b-c''\<rparr>) = Some h2 \<and>
      length (getAllResponseStreams
             (addResponseStream (addResponseStream c \<lparr>sessionId = ''a-b'', exchangeId = ''c''\<rparr> h1)
                \<lparr>sessionId = ''a'', exchangeId = ''b-c''\<rparr> h2))
        = length (getAllResponseStreams
             (addResponseStream c \<lparr>sessionId = ''a-b'', exchangeId = ''c''\<rparr> h1)))"
proof -
  let ?k1 = "\<lparr>sessionId = ''a-b'', exchangeId = ''c''\<rparr>"
  let ?k2 = "\<lparr>sessionId = ''a'', exchangeId = ''b-c''\<rparr>"
  have ne: "?k1 \<noteq> ?k2" by simp
  have k1: "getKey ?k1 = ''a-b-c''" and k2: "getKey ?k2 = ''a-b-c''"
    by (simp_all add: getKey_def)
  have ninj: "\<not> inj getKey"
  proof
    assume "inj getKey"
    then have "?k1 = ?k2" by (rule injD) (simp add: k1 k2)
    with ne show False by contradiction
  qed
  have look: "map_of (responseStreamCollection (addResponseStream (addResponseStream c ?k1 h1) ?k2 h2))
      ''a-b-c'' = Some h2" for c h1 h2
    by (simp add: map_of_addResponseStream k2)
  have g1: "fst (getResponseStream (addResponseStream (addResponseStream c ?k1 h1) ?k2 h2) ?k1) = Some h2"
    for c h1 h2
    using look [of c h1 h2] by (simp add: getResponseStream_def Let_def k1)
  have g2: "fst (getResponseStream (addResponseStream (addResponseStream c ?k1 h1) ?k2 h2) ?k2) = Some h2"
    for c h1 h2
    using look [of c h1 h2] by (simp add: getResponseStream_def Let_def k2)
  have present: "''a-b-c'' \<in> fst ` set (responseStreamCollection (addResponseStream c ?k1 h1))" for c h1
    by (simp add: addResponseStream_def k1 dom_update)
  have len: "length (getAllResponseStreams (addResponseStream (addResponseStream c ?k1 h1) ?k2 h2))
      = length (getAllResponseStreams (addResponseStream c ?k1 h1))" for c h1 h2
  proof -
    have "length (responseStreamCollection (addResponseStream (addResponseStream c ?k1 h1) ?k2 h2))
        = length (AList.update ''a-b-c'' h2 (responseStreamCollection (addResponseStream c ?k1 h1)))"
      by (simp add: addResponseStream_def k2)
    also have "\<dots> = length (responseStreamCollection (addResponseStream c ?k1 h1))"
      using present [of c h1] by (simp only: length_AList_update if_True)
    finally show ?thesis by (simp add: getAllResponseStreams_def)
  qed
  from ne k1 k2 ninj g1 g2 len show ?thesis by blast
qed

theorem getKey_collision_witness:
  "fst (getResponseStream
          (addResponseStream
             (addResponseStream newAideResponseStreamCollection
                \<lparr>sessionId = ''a-b'', exchangeId = ''c''\<rparr> \<lparr>responseExchangeId = ''c'', stream = 0\<rparr>)
             \<lparr>sessionId = ''a'', exchangeId = ''b-c''\<rparr> \<lparr>responseExchangeId = ''b-c'', stream = 1\<rparr>)
          \<lparr>sessionId = ''a-b'', exchangeId = ''c''\<rparr>)
     = Some \<lparr>responseExchangeId = ''b-c'', stream = 1\<rparr>"
  using getKey_collision by blast

section \<open>Properties of the inbound server\<close>

lemma getNextOpenPort_loop_none:
  "(\<And>q. startFrom \<le> q \<Longrightarrow> q < 65535 \<Longrightarrow> \<not> isPortOpen q) \<Longrightarrow>
   getNextOpenPort_loop isPortOpen startFrom probed = (None, probed @ [startFrom..<65535])"
proof (induction isPortOpen startFrom probed rule: getNextOpenPort_loop.induct)
  case (1 isPortOpen startFrom probed)
  show ?case
  proof (cases "startFrom < 65535")
    case True
    have busy: "\<not> isPortOpen startFrom"
      using "1.prems" [of startFrom] True by simp
    have "getNextOpenPort_loop isPortOpen (startFrom + 1) (probed @ [startFrom])
        = (None, (probed @ [startFrom]) @ [startFrom + 1..<65535])"
      using True busy "1.prems" by (intro "1.IH") simp_all
    moreover have "[startFrom..<65535] = startFrom # [startFrom + 1..<65535]"
      using True by (simp add: upt_conv_Cons)
    ultimately show ?thesis
      using True busy by (subst getNextOpenPort_loop.simps) simp
  next
    case False
    then show ?thesis
      by (subst getNextOpenPort_loop.simps) simp
  qed
qed

lemma getNextOpenPort_loop_some:
  "isPortOpen p \<Longrightarrow> startFrom \<le> p \<Longrightarrow> p < 65535 \<Longrightarrow>
   (\<And>q. startFrom \<le> q \<Longrightarrow> q < p \<Longrightarrow> \<not> isPortOpen q) \<Longrightarrow>
   getNextOpenPort_loop isPortOpen startFrom probed = (Some p, probed @ [startFrom..<Suc p])"
proof (induction isPortOpen startFrom probed rule: getNextOpenPort_loop.induct)
  case (1 isPortOpen startFrom probed)
  have lt: "startFrom < 65535"
    using "1.prems"(2,3) by simp
  show ?case
  proof (cases "isPortOpen startFrom")
    case True
    then have "\<not> startFrom < p"
      using "1.prems"(4) [of startFrom] by auto
    with "1.prems"(2) have "startFrom = p" by simp
    then show ?thesis
      using True lt by (subst getNextOpenPort_loop.simps) simp
  next
    case False
    with "1.prems"(1,2) have less: "startFrom < p"
      by (cases "startFrom = p") auto
    have "getNextOpenPort_loop isPortOpen (startFrom + 1) (probed @ [startFrom])
        = (Some p, (probed @ [startFrom]) @ [startFrom + 1..<Suc p])"
      using lt False less "1.prems" by (intro "1.IH") simp_all
    moreover have "[startFrom..<Suc p] = startFrom # [startFrom + 1..<Suc p]"
      using less by (simp add: upt_conv_Cons)
    ultimately show ?thesis
      using lt False by (subst getNextOpenPort_loop.simps) simp
  qed
qed

text \<open>
  Claim C7. \<^verbatim>\<open>getNextOpenPort\<close> is a total function (its loop terminates for every
  answer of the environment). When \<open>p\<close> is the first free port of 42427, ..., 65534 it
  probes exactly 42427, ..., \<open>p\<close> in this order and returns \<open>p\<close>, and the constructor's
  callback starts the listener on \<open>p\<close>. When every port of 42427, ..., 65534 is busy it
  probes them all in order and returns \<^verbatim>\<open>null\<close>, and the callback throws
  \<^verbatim>\<open>Error('Could not find an open port')\<close> with no listener started.
\<close>

theorem port_selection:
  "(isPortOpen p \<and> 42427 \<le> p \<and> p < 65535 \<and> (\<forall>q. 42427 \<le> q \<and> q < p \<longrightarrow> \<not> isPortOpen q) \<longrightarrow>
      getNextOpenPort isPortOpen = (Some p, [42427..<Suc p]) \<and>
      constructProvider isPortOpen s =
        Inr ((emit (Listen p) s)\<lparr>editorUrl := Some (''http://localhost:'' @ numberToString p)\<rparr>)) \<and>
   ((\<forall>q. 42427 \<le> q \<and> q < 65535 \<longrightarrow> \<not> isPortOpen q) \<longrightarrow>
      getNextOpenPort isPortOpen = (None, [42427..<65535]) \<and>
      constructProvider isPortOpen s = Inl (Error ''Could not find an open port''))"
proof (intro conjI impI)
  assume free: "isPortOpen p \<and> 42427 \<le> p \<and> p < 65535 \<and> (\<forall>q. 42427 \<le> q \<and> q < p \<longrightarrow> \<not> isPortOpen q)"
  then have "getNextOpenPort_loop isPortOpen 42427 [] = (Some p, [] @ [42427..<Suc p])"
    by (intro getNextOpenPort_loop_some) auto
  then show found: "getNextOpenPort isPortOpen = (Some p, [42427..<Suc p])"
    unfolding getNextOpenPort_def by (simp only: append_Nil)
  show "constructProvider isPortOpen s =
      Inr ((emit (Listen p) s)\<lparr>editorUrl := Some (''http://localhost:'' @ numberToString p)\<rparr>)"
    unfolding constructProvider_def startRequestHandler_def found
    by (simp only: fst_conv option.case)
next
  assume busy: "\<forall>q. 42427 \<le> q \<and> q < 65535 \<longrightarrow> \<not> isPortOpen q"
  then have "getNextOpenPort_loop isPortOpen 42427 [] = (None, [] @ [42427..<65535])"
    by (intro getNextOpenPort_loop_none) auto
  then show none: "getNextOpenPort isPortOpen = (None, [42427..<65535])"
    unfolding getNextOpenPort_def by (simp only: append_Nil)
  show "constructProvider isPortOpen s = Inl (Error ''Could not find an open port'')"
    unfolding constructProvider_def startRequestHandler_def none
    by (simp only: fst_conv option.case)
qed

theorem port_selection_witness:
  "getNextOpenPort (\<lambda>q. q = 42429) = (Some 42429, [42427, 42428, 42429]) \<and>
   getNextOpenPort (\<lambda>q. False) = (None, [42427..<65535]) \<and>
   constructProvider (\<lambda>q. False) (newProvider [] [] []) = Inl (Error ''Could not find an open port'')"
proof -
  have up: "[42427..<Suc 42429] = [42427, 42428, 42429::nat]"
    by (simp add: upt_conv_Cons)
  have free: "(\<lambda>q. q = 42429) (42429::nat) \<and> (42427::nat) \<le> 42429 \<and> (42429::nat) < 65535 \<and>
      (\<forall>q. 42427 \<le> q \<and> q < 42429 \<longrightarrow> \<not> (\<lambda>q. q = 42429) (q::nat))"
    by simp
  have "getNextOpenPort (\<lambda>q. q = 42429) = (Some 42429, [42427..<Suc 42429])"
    using port_selection [of "\<lambda>q. q = 42429" 42429 "newProvider [] [] []", THEN conjunct1, THEN mp, OF free]
    by (rule conjunct1)
  then have a: "getNextOpenPort (\<lambda>q. q = 42429) = (Some 42429, [42427, 42428, 42429])"
    by (simp only: up)
  have b: "getNextOpenPort (\<lambda>q. False) = (None, [42427..<65535]) \<and>
      constructProvider (\<lambda>q. False) (newProvider [] [] []) = Inl (Error ''Could not find an open port'')"
    using port_selection [of "\<lambda>q. False" 0 "newProvider [] [] []"] by blast
  from a b show ?thesis by blast
qed

text \<open>
  Claim C6. The claim says that \<^verbatim>\<open>undoToCheckpoint\<close> fails when no stream is registered
  for the request's pair, and that the label ends with the index. The code looks the
  stream up under the joined string \<^verbatim>\<open>session_id-exchange_id\<close>, so a request for the
  pair (\<open>a\<close>, \<open>b-c\<close>), for which nothing is registered, succeeds on the stream
  registered for (\<open>a-b\<close>, \<open>c\<close>); and the label ends with what the template literal prints
  for the index. What holds: when the map has no handle under the joined string, the
  function returns \<^verbatim>\<open>success: false\<close> and changes nothing. When the map has the handle
  \<open>h\<close> there, it makes exactly one call, \<^verbatim>\<open>codeEdit\<close> on the stream of \<open>h\<close>, with one
  delete of the empty range from (0, 0) to (0, 0) and \<^verbatim>\<open>needsConfirmation: false\<close>, and
  returns \<^verbatim>\<open>success: true\<close> (the lookup has made \<open>h\<close> the latest handle). The label is
  \<^verbatim>\<open>exchange_id\<close> when \<^verbatim>\<open>index\<close> is \<^verbatim>\<open>null\<close>; otherwise it is \<^verbatim>\<open>exchange_id\<close>, \<open>::\<close>
  and then the decimal digits of an index that is an integer from 0 to 9007199254740991,
  \<open>undefined\<close> for a missing index, and the text the runtime prints for any other number.
\<close>

theorem undoToCheckpoint_result:
  "(map_of (responseStreamCollection (streamCollection s))
      (session_id request @ ''-'' @ exchange_id request) = None \<longrightarrow>
      undoToCheckpoint s request = (False, s)) \<and>
   (map_of (responseStreamCollection (streamCollection s))
      (session_id request @ ''-'' @ exchange_id request) = Some h \<longrightarrow>
      fst (undoToCheckpoint s request) = True \<and>
      effects (snd (undoToCheckpoint s request)) =
        effects s @
        [StreamCall (stream h) (CodeEdit
           [\<lparr>uri = ''/undoCheck'', range_start = (0, 0), range_end = (0, 0),
             label = (case index request of
                        IndexNull \<Rightarrow> exchange_id request
                      | IndexUndefined \<Rightarrow> exchange_id request @ ''::undefined''
                      | IndexNumber (SafeInteger w) \<Rightarrow>
                          exchange_id request @ ''::'' @ numberToString (unat w)
                      | IndexNumber (OtherNumber printed) \<Rightarrow>
                          exchange_id request @ ''::'' @ printed),
             needsConfirmation = False\<rparr>])] \<and>
      latestResponseStream (streamCollection (snd (undoToCheckpoint s request))) = Some h \<and>
      responseStreamCollection (streamCollection (snd (undoToCheckpoint s request))) =
        responseStreamCollection (streamCollection s))"
proof (intro conjI impI)
  assume "map_of (responseStreamCollection (streamCollection s))
      (session_id request @ ''-'' @ exchange_id request) = None"
  then show "undoToCheckpoint s request = (False, s)"
    by (simp add: undoToCheckpoint_def lookupResponseStream_def getResponseStream_def getKey_def
        Let_def)
next
  assume reg: "map_of (responseStreamCollection (streamCollection s))
      (session_id request @ ''-'' @ exchange_id request) = Some h"
  then show "fst (undoToCheckpoint s request) = True"
    by (simp add: undoToCheckpoint_def lookupResponseStream_def getResponseStream_def getKey_def
        Let_def)
  from reg show "effects (snd (undoToCheckpoint s request)) =
        effects s @
        [StreamCall (stream h) (CodeEdit
           [\<lparr>uri = ''/undoCheck'', range_start = (0, 0), range_end = (0, 0),
             label = (case index request of
                        IndexNull \<Rightarrow> exchange_id request
                      | IndexUndefined \<Rightarrow> exchange_id request @ ''::undefined''
                      | IndexNumber (SafeInteger w) \<Rightarrow>
                          exchange_id request @ ''::'' @ numberToString (unat w)
                      | IndexNumber (OtherNumber printed) \<Rightarrow>
                          exchange_id request @ ''::'' @ printed),
             needsConfirmation = False\<rparr>])]"
    by (simp add: undoToCheckpoint_def lookupResponseStream_def getResponseStream_def getKey_def
        Let_def emit_def templateNumber_def split: plan_step_index.splits js_number.splits)
  from reg show "latestResponseStream (streamCollection (snd (undoToCheckpoint s request))) = Some h"
    by (simp add: undoToCheckpoint_def lookupResponseStream_def getResponseStream_def getKey_def
        Let_def emit_def latestResponseStream_def)
  from reg show "responseStreamCollection (streamCollection (snd (undoToCheckpoint s request))) =
        responseStreamCollection (streamCollection s)"
    by (simp add: undoToCheckpoint_def lookupResponseStream_def getResponseStream_def getKey_def
        Let_def emit_def)
qed

lemma collision_example_eq:
  "collision_example =
      \<lparr>streamCollection =
         \<lparr>responseStreamCollection = [(''a-b-c'', \<lparr>responseExchangeId = ''c'', stream = 3\<rparr>)],
          latestResponseStreamEntry = None,
          subscriptions = [\<lparr>sessionId = ''a-b'', exchangeId = ''c''\<rparr>]\<rparr>,
       lastThinkingText = [], editorUrl = None, editsMap = [], openResponseStream = None,
       editCounter = 0, startedStreams = [], effects = [InitResponse ''a-b''],
       initResponseResults = [], documents = [], uncreatable = []\<rparr>"
  by (simp add: collision_example_def newProvider_def newAideResponseStreamCollection_def
      newExchangeIdForSession_def initResponse_def emit_def addResponseStream_def getKey_def)

theorem undoToCheckpoint_result_witness:
  "undoToCheckpoint (newProvider [] [] [])
      \<lparr>session_id = ''a-b'', exchange_id = ''c'', index = IndexNumber (SafeInteger 12)\<rparr>
     = (False, newProvider [] [] []) \<and>
   fst (undoToCheckpoint collision_example
      \<lparr>session_id = ''a-b'', exchange_id = ''c'', index = IndexNumber (SafeInteger 12)\<rparr>) = True \<and>
   effects (snd (undoToCheckpoint collision_example
      \<lparr>session_id = ''a-b'', exchange_id = ''c'', index = IndexNumber (SafeInteger 12)\<rparr>))
     = [InitResponse ''a-b'',
        StreamCall 3 (CodeEdit
          [\<lparr>uri = ''/undoCheck'', range_start = (0, 0), range_end = (0, 0),
            label = ''c::12'', needsConfirmation = False\<rparr>])] \<and>
   effects (snd (undoToCheckpoint collision_example
      \<lparr>session_id = ''a-b'', exchange_id = ''c'', index = IndexNull\<rparr>))
     = [InitResponse ''a-b'',
        StreamCall 3 (CodeEdit
          [\<lparr>uri = ''/undoCheck'', range_start = (0, 0), range_end = (0, 0),
            label = ''c'', needsConfirmation = False\<rparr>])]"
proof -
  let ?h = "\<lparr>responseExchangeId = ''c'', stream = 3\<rparr>"
  let ?r = "\<lparr>session_id = ''a-b'', exchange_id = ''c'', index = IndexNumber (SafeInteger 12)\<rparr>"
  let ?rnull = "\<lparr>session_id = ''a-b'', exchange_id = ''c'', index = IndexNull\<rparr>"
  have n12: "numberToString (unat (12 :: 53 word)) = ''12''"
    by simp
  have absent: "map_of (responseStreamCollection (streamCollection (newProvider [] [] [])))
      (session_id ?r @ ''-'' @ exchange_id ?r) = None"
    by (simp add: newProvider_def newAideResponseStreamCollection_def)
  have present: "map_of (responseStreamCollection (streamCollection collision_example))
      (session_id ?r @ ''-'' @ exchange_id ?r) = Some ?h"
    by (simp add: collision_example_eq)
  have present_null: "map_of (responseStreamCollection (streamCollection collision_example))
      (session_id ?rnull @ ''-'' @ exchange_id ?rnull) = Some ?h"
    by (simp add: collision_example_eq)
  have eff: "effects collision_example = [InitResponse ''a-b'']"
    by (simp add: collision_example_eq)
  have a: "undoToCheckpoint (newProvider [] [] []) ?r = (False, newProvider [] [] [])"
    using undoToCheckpoint_result [of "newProvider [] [] []" ?r ?h, THEN conjunct1] absent
    by (rule mp)
  note th = undoToCheckpoint_result [of collision_example ?r ?h, THEN conjunct2, THEN mp, OF present]
  have b: "fst (undoToCheckpoint collision_example ?r) = True \<and>
      effects (snd (undoToCheckpoint collision_example ?r)) =
        [InitResponse ''a-b'',
         StreamCall 3 (CodeEdit
           [\<lparr>uri = ''/undoCheck'', range_start = (0, 0), range_end = (0, 0),
             label = ''c::12'', needsConfirmation = False\<rparr>])]"
    using th eff n12 by simp
  note th_null = undoToCheckpoint_result [of collision_example ?rnull ?h, THEN conjunct2, THEN mp,
      OF present_null]
  have c: "effects (snd (undoToCheckpoint collision_example ?rnull)) =
        [InitResponse ''a-b'',
         StreamCall 3 (CodeEdit
           [\<lparr>uri = ''/undoCheck'', range_start = (0, 0), range_end = (0, 0),
             label = ''c'', needsConfirmation = False\<rparr>])]"
    using th_null eff by simp
  from a b c show ?thesis by simp
qed

theorem undoToCheckpoint_result_counterexample:
  "subscriptions (streamCollection collision_example) = [\<lparr>sessionId = ''a-b'', exchangeId = ''c''\<rparr>] \<and>
   \<lparr>sessionId = ''a'', exchangeId = ''b-c''\<rparr> \<noteq> \<lparr>sessionId = ''a-b'', exchangeId = ''c''\<rparr> \<and>
   fst (undoToCheckpoint collision_example
      \<lparr>session_id = ''a'', exchange_id = ''b-c'', index = IndexNull\<rparr>) = True \<and>
   effects (snd (undoToCheckpoint collision_example
      \<lparr>session_id = ''a'', exchange_id = ''b-c'', index = IndexNull\<rparr>))
     = [InitResponse ''a-b'',
        StreamCall 3 (CodeEdit
          [\<lparr>uri = ''/undoCheck'', range_start = (0, 0), range_end = (0, 0),
            label = ''b-c'', needsConfirmation = False\<rparr>])]"
  unfolding collision_example_eq
  by (simp add: undoToCheckpoint_def lookupResponseStream_def getResponseStream_def getKey_def
      Let_def emit_def)

text \<open>
  Claim C10. \<^verbatim>\<open>provideEdit\<close> with \<^verbatim>\<open>apply_directly\<close> false and
  \<^verbatim>\<open>openResponseStream\<close> undefined returns the request's path with \<^verbatim>\<open>success: true\<close>,
  and calls neither \<^verbatim>\<open>applyEdits\<close> nor \<^verbatim>\<open>applyEditsDirectly\<close>: the state, with its
  log of calls, is unchanged.
\<close>

theorem provideEdit_without_stream:
  "\<not> apply_directly request \<and> openResponseStream s = None \<longrightarrow>
   provideEdit applyEditsResult s request =
     ((fs_file_path request, True), s)"
  by (simp add: provideEdit_def)

theorem provideEdit_without_stream_witness:
  "provideEdit (\<lambda>request open_stream. ([], False)) (newProvider [] [] [])
      \<lparr>fs_file_path = ''/a.ts'', apply_directly = False\<rparr>
     = ((''/a.ts'', True), newProvider [] [] [])"
proof -
  have "openResponseStream (newProvider [] [] []) = None"
    by (simp add: newProvider_def)
  then show ?thesis
    using provideEdit_without_stream
      [of "\<lparr>fs_file_path = ''/a.ts'', apply_directly = False\<rparr>" "newProvider [] [] []"
          "\<lambda>request open_stream. ([], False)"]
    by simp
qed

section \<open>Properties of streamed edits\<close>

lemma drainLines_effects:
  "\<exists>es. snd (drainLines editRequestId buffer s) = s\<lparr>effects := effects s @ es\<rparr>"
proof (induction editRequestId buffer s rule: drainLines.induct)
  case (1 editRequestId buffer s)
  show ?case
  proof (cases "getLine buffer")
    case None
    then have "snd (drainLines editRequestId buffer s) = s\<lparr>effects := effects s @ []\<rparr>"
      by (subst drainLines.simps) simp
    then show ?thesis by blast
  next
    case (Some x2)
    obtain currentLine rest where x2: "x2 = (currentLine, rest)"
      by (cases x2)
    from "1.IH" [OF Some x2 [symmetric]] obtain es where
      "snd (drainLines editRequestId rest (emit (ProcessLine editRequestId currentLine) s))
         = (emit (ProcessLine editRequestId currentLine) s)
             \<lparr>effects := effects (emit (ProcessLine editRequestId currentLine) s) @ es\<rparr>"
      by blast
    then have "snd (drainLines editRequestId buffer s)
        = s\<lparr>effects := effects s @ (ProcessLine editRequestId currentLine # es)\<rparr>"
      using Some x2 by (subst drainLines.simps) (simp add: emit_def)
    then show ?thesis by blast
  qed
qed

lemma lookupResponseStream_idem:
  "lookupResponseStream s k = (r, s1) \<Longrightarrow> lookupResponseStream s1 k = (r, s1)"
  by (auto simp: lookupResponseStream_def getResponseStream_def Let_def split: option.splits)

lemma lookupResponseStream_frame:
  assumes "lookupResponseStream s k = (r, s)" and "streamCollection s' = streamCollection s"
  shows "lookupResponseStream s' k = (r, s')"
proof -
  obtain c where get: "getResponseStream (streamCollection s) k = (r, c)"
    and upd: "s\<lparr>streamCollection := c\<rparr> = s"
    using assms(1) by (auto simp: lookupResponseStream_def split: prod.splits)
  from upd have "streamCollection (s\<lparr>streamCollection := c\<rparr>) = streamCollection s"
    by simp
  then have "c = streamCollection s'"
    using assms(2) by simp
  with get assms(2) show ?thesis
    by (simp add: lookupResponseStream_def)
qed

lemma provideEditStreamed_End:
  assumes "event request = End"
    and "lookupResponseStream s
           \<lparr>sessionId = edit_session_id request, exchangeId = edit_exchange_id request\<rparr>
         = (responseStream, s1)"
  shows "provideEditStreamed s request =
     (if \<not> edit_apply_directly request \<and> openResponseStream s1 = None \<and> responseStream = None
      then (Inr ([], False), s1)
      else case map_of (editsMap s1) (edit_request_id request) of
             None \<Rightarrow>
               (Inl (TypeError ''Cannot read properties of undefined (reading 'answerSplitter')''), s1)
           | Some editsManager \<Rightarrow>
               (Inr ([], True),
                (snd (drainLines (edit_request_id request) (answerSplitter editsManager) s1))
                  \<lparr>effects :=
                     effects (snd (drainLines (edit_request_id request) (answerSplitter editsManager) s1))
                       @ [Cleanup (edit_request_id request), Save (edit_fs_file_path request)],
                   editsMap :=
                     AList.delete (edit_request_id request)
                       (editsMap (snd (drainLines (edit_request_id request) (answerSplitter editsManager) s1))),
                   editCounter :=
                     editCounter (snd (drainLines (edit_request_id request) (answerSplitter editsManager) s1)) + 1\<rparr>))"
  using assms
  by (simp add: provideEditStreamed_def Let_def emit_def split: option.splits prod.splits)

text \<open>
  Claim C5. The claim says that a second \<^verbatim>\<open>End\<close> for an edit request is a no-op. In
  the code it is not: when a call of \<^verbatim>\<open>provideEditStreamed\<close> with the event \<^verbatim>\<open>End\<close>
  has returned \<^verbatim>\<open>success: true\<close> (it has drained the lines and deleted the entry of
  \<^verbatim>\<open>editsMap\<close>), the same request on the state it left throws the \<^verbatim>\<open>TypeError\<close> of
  reading \<^verbatim>\<open>answerSplitter\<close> of \<^verbatim>\<open>undefined\<close>.
\<close>

theorem second_End_throws:
  "event request = End \<and> provideEditStreamed s request = (Inr ([], True), s') \<longrightarrow>
   map_of (editsMap s') (edit_request_id request) = None \<and>
   provideEditStreamed s' request =
     (Inl (TypeError ''Cannot read properties of undefined (reading 'answerSplitter')''), s')"
proof (intro impI, elim conjE)
  assume ev: "event request = End"
    and first: "provideEditStreamed s request = (Inr ([], True), s')"
  let ?k = "\<lparr>sessionId = edit_session_id request, exchangeId = edit_exchange_id request\<rparr>"
  let ?id = "edit_request_id request"
  obtain responseStream s1 where look: "lookupResponseStream s ?k = (responseStream, s1)"
    by (cases "lookupResponseStream s ?k")
  note unfolded = provideEditStreamed_End [OF ev look]
  have guard: "\<not> (\<not> edit_apply_directly request \<and> openResponseStream s1 = None \<and> responseStream = None)"
    using first unfolding unfolded by (auto split: if_splits)
  obtain editsManager where em: "map_of (editsMap s1) ?id = Some editsManager"
    using first guard unfolding unfolded
    by (cases "map_of (editsMap s1) ?id") (auto split: if_splits)
  obtain es where drain:
    "snd (drainLines ?id (answerSplitter editsManager) s1) = s1\<lparr>effects := effects s1 @ es\<rparr>"
    using drainLines_effects [of ?id "answerSplitter editsManager" s1] by blast
  have s': "s' = s1\<lparr>effects := effects s1 @ es @ [Cleanup ?id, Save (edit_fs_file_path request)],
                   editsMap := AList.delete ?id (editsMap s1),
                   editCounter := editCounter s1 + 1\<rparr>"
    using first guard em unfolding unfolded by (simp add: drain)
  show "map_of (editsMap s') ?id = None \<and>
    provideEditStreamed s' request =
      (Inl (TypeError ''Cannot read properties of undefined (reading 'answerSplitter')''), s')"
  proof
    show gone: "map_of (editsMap s') ?id = None"
      by (simp add: s' delete_conv')
    have look1: "lookupResponseStream s1 ?k = (responseStream, s1)"
      using look by (rule lookupResponseStream_idem)
    have look': "lookupResponseStream s' ?k = (responseStream, s')"
      using look1 by (rule lookupResponseStream_frame) (simp add: s')
    have guard': "\<not> (\<not> edit_apply_directly request \<and> openResponseStream s' = None \<and> responseStream = None)"
      using guard by (simp add: s')
    show "provideEditStreamed s' request =
        (Inl (TypeError ''Cannot read properties of undefined (reading 'answerSplitter')''), s')"
      using guard' gone unfolding provideEditStreamed_End [OF ev look'] by simp
  qed
qed

theorem second_End_throws_witness:
  "fst (provideEditStreamed
     (snd (provideEditStreamed
        (snd (provideEditStreamed (newProvider [] [(''/f.ts'', ''a'')] [])
           \<lparr>edit_session_id = ''s'', edit_exchange_id = ''x'', plan_step_id = None,
            edit_apply_directly = True, edit_fs_file_path = ''/f.ts'', edit_request_id = ''e'',
            range = ((0, 0), (0, 0)), event = Start\<rparr>))
        \<lparr>edit_session_id = ''s'', edit_exchange_id = ''x'', plan_step_id = None,
         edit_apply_directly = True, edit_fs_file_path = ''/f.ts'', edit_request_id = ''e'',
         range = ((0, 0), (0, 0)), event = End\<rparr>))
     \<lparr>edit_session_id = ''s'', edit_exchange_id = ''x'', plan_step_id = None,
      edit_apply_directly = True, edit_fs_file_path = ''/f.ts'', edit_request_id = ''e'',
      range = ((0, 0), (0, 0)), event = End\<rparr>)
   = Inl (TypeError ''Cannot read properties of undefined (reading 'answerSplitter')'')"
proof -
  let ?start = "\<lparr>edit_session_id = ''s'', edit_exchange_id = ''x'', plan_step_id = None,
            edit_apply_directly = True, edit_fs_file_path = ''/f.ts'', edit_request_id = ''e'',
            range = ((0, 0), (0, 0)), event = Start\<rparr>"
  let ?end = "\<lparr>edit_session_id = ''s'', edit_exchange_id = ''x'', plan_step_id = None,
            edit_apply_directly = True, edit_fs_file_path = ''/f.ts'', edit_request_id = ''e'',
            range = ((0, 0), (0, 0)), event = End\<rparr>"
  let ?s1 = "snd (provideEditStreamed (newProvider [] [(''/f.ts'', ''a'')] []) ?start)"
  have "fst (provideEditStreamed ?s1 ?end) = Inr ([], True)"
    by (simp add: provideEditStreamed_def newProvider_def newAideResponseStreamCollection_def
        lookupResponseStream_def getResponseStream_def getKey_def openOrCreateDocument_def
        getLine_def emit_def Let_def drainLines.simps)
  then have first: "provideEditStreamed ?s1 ?end = (Inr ([], True), snd (provideEditStreamed ?s1 ?end))"
    by (simp add: prod_eq_iff)
  have ev: "event ?end = End"
    by simp
  from second_End_throws [of ?end ?s1 "snd (provideEditStreamed ?s1 ?end)"] ev first
  show ?thesis by simp
qed

section \<open>Properties of the dispatcher\<close>


lemma lookupResponseStream_registered:
  "map_of (responseStreamCollection (streamCollection s)) (getKey k) = Some h \<Longrightarrow>
   lookupResponseStream s k =
     (Some h, s\<lparr>streamCollection :=
                  (streamCollection s)\<lparr>latestResponseStreamEntry := Some (getKey k, h)\<rparr>\<rparr>)"
  by (simp add: lookupResponseStream_def getResponseStream_def Let_def)

lemma lookupResponseStream_absent:
  "map_of (responseStreamCollection (streamCollection s)) (getKey k) = None \<Longrightarrow>
   lookupResponseStream s k = (None, s)"
  by (simp add: lookupResponseStream_def getResponseStream_def Let_def)

lemma dispatchEvent_ToolThinking:
  assumes "map_of (responseStreamCollection (streamCollection s))
             (getKey \<lparr>sessionId = rid, exchangeId = xid\<rparr>) = Some h"
  shows "\<exists>s'. dispatchEvent authCallbacks errorCallback s streamStarted
                 (Envelope rid xid (FrameworkEvent (ToolThinking currentText))) = (Continue, True, s') \<and>
     responseStreamCollection (streamCollection s') = responseStreamCollection (streamCollection s) \<and>
     rid @ ''-'' @ xid \<in> set (startedStreams s') \<and>
     map_of (lastThinkingText s') (rid @ ''-'' @ xid) = Some currentText \<and>
     effects s' =
       effects s
       @ (if rid @ ''-'' @ xid \<in> set (startedStreams s) then []
          else [StreamCall (stream h) (Stage ''Loading...'')])
       @ (if drop (length (case map_of (lastThinkingText s) (rid @ ''-'' @ xid) of
                             None \<Rightarrow> []
                           | Some lastText \<Rightarrow> lastText)) currentText = []
          then []
          else [StreamCall (stream h)
                  (Markdown (drop (length (case map_of (lastThinkingText s) (rid @ ''-'' @ xid) of
                                             None \<Rightarrow> []
                                           | Some lastText \<Rightarrow> lastText)) currentText
                             @ ''\<newline>''))])"
  using lookupResponseStream_registered [OF assms]
  by (simp add: dispatchEvent_def resolvedEvent_def frameworkEvent_def streamCall_def emit_def
      Let_def update_conv')

text \<open>
  Claim C4. For an exchange whose stream is registered, two \<^verbatim>\<open>ToolThinking\<close> events one
  after the other with the texts \<open>t1\<close> and \<open>t2\<close>: the second pass of the loop body calls
  \<^verbatim>\<open>markdown\<close> once, with the part of \<open>t2\<close> after the first \<open>length t1\<close> code units
  followed by a newline, when that part is not empty, and makes no call at all when it is
  empty. For \<open>abc\<close> and then \<open>abcdef\<close> the fragment is \<open>def\<close> and a newline, not \<open>def\<close>.
\<close>

theorem thinking_delta:
  "map_of (responseStreamCollection (streamCollection s))
     (getKey \<lparr>sessionId = rid, exchangeId = xid\<rparr>) = Some h \<longrightarrow>
   (\<exists>s1 s2.
      dispatchEvent authCallbacks errorCallback s streamStarted
        (Envelope rid xid (FrameworkEvent (ToolThinking t1))) = (Continue, True, s1) \<and>
      dispatchEvent authCallbacks errorCallback s1 True
        (Envelope rid xid (FrameworkEvent (ToolThinking t2))) = (Continue, True, s2) \<and>
      effects s2 =
        effects s1 @
        (if drop (length t1) t2 = [] then []
         else [StreamCall (stream h) (Markdown (drop (length t1) t2 @ ''\<newline>''))]))"
proof
  assume reg: "map_of (responseStreamCollection (streamCollection s))
     (getKey \<lparr>sessionId = rid, exchangeId = xid\<rparr>) = Some h"
  from dispatchEvent_ToolThinking [OF reg, of authCallbacks errorCallback streamStarted t1]
  obtain s1 where
    first: "dispatchEvent authCallbacks errorCallback s streamStarted
        (Envelope rid xid (FrameworkEvent (ToolThinking t1))) = (Continue, True, s1)"
    and reg1: "responseStreamCollection (streamCollection s1) = responseStreamCollection (streamCollection s)"
    and started1: "rid @ ''-'' @ xid \<in> set (startedStreams s1)"
    and last1: "map_of (lastThinkingText s1) (rid @ ''-'' @ xid) = Some t1"
    by blast
  from reg reg1 have reg': "map_of (responseStreamCollection (streamCollection s1))
     (getKey \<lparr>sessionId = rid, exchangeId = xid\<rparr>) = Some h"
    by simp
  from dispatchEvent_ToolThinking [OF reg', of authCallbacks errorCallback True t2]
  obtain s2 where
    second: "dispatchEvent authCallbacks errorCallback s1 True
        (Envelope rid xid (FrameworkEvent (ToolThinking t2))) = (Continue, True, s2)"
    and eff: "effects s2 =
       effects s1
       @ (if rid @ ''-'' @ xid \<in> set (startedStreams s1) then []
          else [StreamCall (stream h) (Stage ''Loading...'')])
       @ (if drop (length (case map_of (lastThinkingText s1) (rid @ ''-'' @ xid) of
                             None \<Rightarrow> []
                           | Some lastText \<Rightarrow> lastText)) t2 = []
          then []
          else [StreamCall (stream h)
                  (Markdown (drop (length (case map_of (lastThinkingText s1) (rid @ ''-'' @ xid) of
                                             None \<Rightarrow> []
                                           | Some lastText \<Rightarrow> lastText)) t2
                             @ ''\<newline>''))])"
    by blast
  from eff started1 last1 have "effects s2 =
        effects s1 @
        (if drop (length t1) t2 = [] then []
         else [StreamCall (stream h) (Markdown (drop (length t1) t2 @ ''\<newline>''))])"
    by simp
  with first second show "\<exists>s1 s2.
      dispatchEvent authCallbacks errorCallback s streamStarted
        (Envelope rid xid (FrameworkEvent (ToolThinking t1))) = (Continue, True, s1) \<and>
      dispatchEvent authCallbacks errorCallback s1 True
        (Envelope rid xid (FrameworkEvent (ToolThinking t2))) = (Continue, True, s2) \<and>
      effects s2 =
        effects s1 @
        (if drop (length t1) t2 = [] then []
         else [StreamCall (stream h) (Markdown (drop (length t1) t2 @ ''\<newline>''))])"
    by blast
qed

lemma thinking_example_registered:
  "map_of (responseStreamCollection (streamCollection thinking_example))
     (getKey \<lparr>sessionId = ''s'', exchangeId = ''x''\<rparr>) = Some \<lparr>responseExchangeId = ''x'', stream = 7\<rparr>"
  by (simp add: thinking_example_def newProvider_def newAideResponseStreamCollection_def
      newExchangeIdForSession_def initResponse_def emit_def addResponseStream_def getKey_def)

theorem thinking_delta_witness:
  "\<exists>s1 s2.
      dispatchEvent None False thinking_example False
        (Envelope ''s'' ''x'' (FrameworkEvent (ToolThinking ''abc''))) = (Continue, True, s1) \<and>
      dispatchEvent None False s1 True
        (Envelope ''s'' ''x'' (FrameworkEvent (ToolThinking ''abcdef''))) = (Continue, True, s2) \<and>
      effects s2 = effects s1 @ [StreamCall 7 (Markdown ''def\<newline>'')]"
  using thinking_delta [of thinking_example "''s''" "''x''" "\<lparr>responseExchangeId = ''x'', stream = 7\<rparr>"
      None False False "''abc''" "''abcdef''"] thinking_example_registered
  by simp

theorem thinking_delta_counterexample:
  "effects (snd (snd (dispatchEvent None False
       (snd (snd (dispatchEvent None False thinking_example False
          (Envelope ''s'' ''x'' (FrameworkEvent (ToolThinking ''abc''))))))
       True (Envelope ''s'' ''x'' (FrameworkEvent (ToolThinking ''abcdef''))))))
   = effects (snd (snd (dispatchEvent None False thinking_example False
          (Envelope ''s'' ''x'' (FrameworkEvent (ToolThinking ''abc''))))))
     @ [StreamCall 7 (Markdown ''def\<newline>'')] \<and>
   StreamCall 7 (Markdown ''def'')
     \<notin> set (effects (snd (snd (dispatchEvent None False
       (snd (snd (dispatchEvent None False thinking_example False
          (Envelope ''s'' ''x'' (FrameworkEvent (ToolThinking ''abc''))))))
       True (Envelope ''s'' ''x'' (FrameworkEvent (ToolThinking ''abcdef'')))))))"
proof -
  have ex: "thinking_example =
      \<lparr>streamCollection =
         \<lparr>responseStreamCollection = [(''s-x'', \<lparr>responseExchangeId = ''x'', stream = 7\<rparr>)],
          latestResponseStreamEntry = None,
          subscriptions = [\<lparr>sessionId = ''s'', exchangeId = ''x''\<rparr>]\<rparr>,
       lastThinkingText = [], editorUrl = None, editsMap = [], openResponseStream = None,
       editCounter = 0, startedStreams = [], effects = [InitResponse ''s''],
       initResponseResults = [], documents = [], uncreatable = []\<rparr>"
    by (simp add: thinking_example_def newProvider_def newAideResponseStreamCollection_def
        newExchangeIdForSession_def initResponse_def emit_def addResponseStream_def getKey_def)
  show ?thesis
    unfolding ex
    by (simp add: dispatchEvent_def resolvedEvent_def frameworkEvent_def streamCall_def emit_def
        lookupResponseStream_def getResponseStream_def getKey_def Let_def)
qed







lemma dispatchLoop_append:
  "dispatchLoop authCallbacks errorCallback s streamStarted pre = (Continue, streamStarted', s') \<Longrightarrow>
   dispatchLoop authCallbacks errorCallback s streamStarted (pre @ es) =
   dispatchLoop authCallbacks errorCallback s' streamStarted' es"
proof (induction pre arbitrary: s streamStarted)
  case Nil
  then show ?case by simp
next
  case (Cons e pre)
  obtain c st1 s1 where step: "dispatchEvent authCallbacks errorCallback s streamStarted e = (c, st1, s1)"
    by (cases "dispatchEvent authCallbacks errorCallback s streamStarted e")
  show ?case
  proof (cases c)
    case Continue
    with Cons.prems step have "dispatchLoop authCallbacks errorCallback s1 st1 pre = (Continue, streamStarted', s')"
      by simp
    then have "dispatchLoop authCallbacks errorCallback s1 st1 (pre @ es) =
        dispatchLoop authCallbacks errorCallback s' streamStarted' es"
      by (rule Cons.IH)
    with Continue step show ?thesis by simp
  next
    case (Return u)
    with Cons.prems step show ?thesis by simp
  next
    case (Throw err)
    with Cons.prems step show ?thesis by simp
  qed
qed


lemma cancel_example_eq:
  "cancel_example =
      \<lparr>streamCollection =
         \<lparr>responseStreamCollection = [(''s-x'', \<lparr>responseExchangeId = ''x'', stream = 7\<rparr>)],
          latestResponseStreamEntry = Some (''s-x'', \<lparr>responseExchangeId = ''x'', stream = 7\<rparr>),
          subscriptions = [\<lparr>sessionId = ''s'', exchangeId = ''x''\<rparr>]\<rparr>,
       lastThinkingText = [], editorUrl = None, editsMap = [], openResponseStream = None,
       editCounter = 0, startedStreams = [], effects = [InitResponse ''s''],
       initResponseResults = [], documents = [], uncreatable = []\<rparr>"
  by (simp add: cancel_example_def thinking_example_def newProvider_def
      newAideResponseStreamCollection_def newExchangeIdForSession_def initResponse_def emit_def
      addResponseStream_def getKey_def lookupResponseStream_def getResponseStream_def Let_def)





section \<open>Properties of the session driver\<close>

lemma errorEvent_unauthorized:
  assumes "includes_str (toLowerCase message) ''unauthorized access''"
    and "\<not> endsWith (toLowerCase message) ''cancelled by user''"
  shows "fst (errorEvent (Some hasRetried) errorCallback s rid message) = Return True"
  using assms
  by (simp add: errorEvent_def Let_def split: prod.splits option.splits)

lemma dispatchEvent_unauthorized:
  assumes "ev = ErrorEvent message \<and> includes_str (toLowerCase message) ''unauthorized access'' \<and>
             \<not> endsWith (toLowerCase message) ''cancelled by user'' \<or>
           ev = FrameworkEvent (ToolCallError ''LLM Client error: Unauthorized access to API'') \<and>
             map_of (responseStreamCollection (streamCollection s))
               (getKey \<lparr>sessionId = rid, exchangeId = xid\<rparr>) \<noteq> None"
  shows "fst (dispatchEvent (Some hasRetried) errorCallback s streamStarted (Envelope rid xid ev))
      = Return True"
  using assms
proof (elim disjE conjE)
  assume ev: "ev = ErrorEvent message"
    and "includes_str (toLowerCase message) ''unauthorized access''"
    and "\<not> endsWith (toLowerCase message) ''cancelled by user''"
  then have "fst (errorEvent (Some hasRetried) errorCallback s rid message) = Return True"
    by (intro errorEvent_unauthorized)
  then obtain s1 where "errorEvent (Some hasRetried) errorCallback s rid message = (Return True, s1)"
    by (cases "errorEvent (Some hasRetried) errorCallback s rid message") simp
  then show ?thesis
    unfolding ev by (simp add: dispatchEvent_def)
next
  assume ev: "ev = FrameworkEvent (ToolCallError ''LLM Client error: Unauthorized access to API'')"
    and "map_of (responseStreamCollection (streamCollection s))
               (getKey \<lparr>sessionId = rid, exchangeId = xid\<rparr>) \<noteq> None"
  then obtain h where "map_of (responseStreamCollection (streamCollection s))
               (getKey \<lparr>sessionId = rid, exchangeId = xid\<rparr>) = Some h"
    by blast
  note look = lookupResponseStream_registered [OF this]
  show ?thesis
    unfolding ev
    by (simp add: dispatchEvent_def resolvedEvent_def look frameworkEvent_def toolCallError_def
        Let_def)
qed

lemma reportAgentEventsToChat_unauthorized:
  assumes "dispatchLoop authCallbacks errorCallback s0 False pre = (Continue, streamStarted, s)"
    and "fst (dispatchEvent authCallbacks errorCallback s streamStarted e) = Return True"
  shows "\<exists>s'. reportAgentEventsToChat authCallbacks errorCallback s0 sid (pre @ e # rest)
      = (None, True, s')"
proof -
  obtain streamStarted' s' where
    "dispatchEvent authCallbacks errorCallback s streamStarted e = (Return True, streamStarted', s')"
    using assms(2) by (cases "dispatchEvent authCallbacks errorCallback s streamStarted e") simp
  then have "dispatchLoop authCallbacks errorCallback s0 False (pre @ e # rest)
      = (Return True, streamStarted', s')"
    by (simp add: dispatchLoop_append [OF assms(1)])
  then show ?thesis
    by (simp add: reportAgentEventsToChat_def)
qed

lemma streamResponseTry_log:
  "snd (snd (snd (streamResponseTry sidecar (s, log) request sid url token hasRetried))) =
     log\<lparr>sidecarCalls := sidecarCalls log @
        [\<lparr>call_method = sidecarMethod request, call_prompt = request_prompt request,
          call_sessionId = sid, call_exchangeId = request_exchangeId request,
          call_editorUrl = url, call_accessToken = token, call_hasRetried = hasRetried\<rparr>]\<rparr>"
  by (simp add: streamResponseTry_def Let_def split: prod.splits option.splits)

lemma streamResponse_retried_log:
  "snd (snd (streamResponse sidecar getSession (s, log) request sid url token True)) =
     log\<lparr>sidecarCalls := sidecarCalls log @
        [\<lparr>call_method = sidecarMethod request, call_prompt = request_prompt request,
          call_sessionId = sid, call_exchangeId = request_exchangeId request,
          call_editorUrl = url, call_accessToken = token, call_hasRetried = True\<rparr>]\<rparr>"
proof -
  obtain e u s1 log1 where attempt:
    "streamResponseTry sidecar (s, log) request sid url token True = (e, u, s1, log1)"
    by (cases "streamResponseTry sidecar (s, log) request sid url token True") auto
  from streamResponseTry_log [of sidecar s log request sid url token True] attempt
  have "log1 = log\<lparr>sidecarCalls := sidecarCalls log @
        [\<lparr>call_method = sidecarMethod request, call_prompt = request_prompt request,
          call_sessionId = sid, call_exchangeId = request_exchangeId request,
          call_editorUrl = url, call_accessToken = token, call_hasRetried = True\<rparr>]\<rparr>"
    by simp
  then show ?thesis
    by (subst streamResponse.simps) (simp add: attempt)
qed

text \<open>
  Claim C3. Let the dispatcher of the first call of the sidecar client (\<^verbatim>\<open>hasRetried\<close>
  false), having passed the events before it, come in the state \<open>s\<close> to an
  authorization error: a top-level error whose message in lower case includes
  \<open>unauthorized access\<close> (and does not end with \<open>cancelled by user\<close>), or the tool call
  error \<open>LLM Client error: Unauthorized access to API\<close> for an exchange whose stream is
  registered. Then \<^verbatim>\<open>streamResponse\<close> asks once for a session with \<^verbatim>\<open>hardCheck: true\<close>
  and calls the sidecar client exactly twice: the first call, and the same call with the
  new token and \<^verbatim>\<open>hasRetried\<close> true, whatever the sidecar answers to the second call. An
  activation with \<^verbatim>\<open>hasRetried\<close> true calls the sidecar client exactly once and asks for
  no session, whatever the events are: its \<^verbatim>\<open>onUnauthorized\<close> returns with no restart.
\<close>

theorem unauthorized_retry:
  "(sidecar \<lparr>call_method = sidecarMethod request, call_prompt = request_prompt request,
             call_sessionId = sid, call_exchangeId = request_exchangeId request,
             call_editorUrl = url, call_accessToken = token, call_hasRetried = False\<rparr>
      = pre @ Envelope rid xid ev # rest \<and>
    dispatchLoop (Some False) False s0 False pre = (Continue, streamStarted, s) \<and>
    (ev = ErrorEvent message \<and> includes_str (toLowerCase message) ''unauthorized access'' \<and>
       \<not> endsWith (toLowerCase message) ''cancelled by user'' \<or>
     ev = FrameworkEvent (ToolCallError ''LLM Client error: Unauthorized access to API'') \<and>
       map_of (responseStreamCollection (streamCollection s))
         (getKey \<lparr>sessionId = rid, exchangeId = xid\<rparr>) \<noteq> None) \<longrightarrow>
    snd (snd (streamResponse sidecar getSession (s0, log) request sid url token False)) =
      log\<lparr>sidecarCalls := sidecarCalls log @
            [\<lparr>call_method = sidecarMethod request, call_prompt = request_prompt request,
              call_sessionId = sid, call_exchangeId = request_exchangeId request,
              call_editorUrl = url, call_accessToken = token, call_hasRetried = False\<rparr>,
             \<lparr>call_method = sidecarMethod request, call_prompt = request_prompt request,
              call_sessionId = sid, call_exchangeId = request_exchangeId request,
              call_editorUrl = url, call_accessToken = accessToken (getSession True),
              call_hasRetried = True\<rparr>],
          sessionChecks := sessionChecks log @ [True]\<rparr>) \<and>
   snd (snd (streamResponse sidecar getSession (s0, log) request sid url token True)) =
     log\<lparr>sidecarCalls := sidecarCalls log @
           [\<lparr>call_method = sidecarMethod request, call_prompt = request_prompt request,
             call_sessionId = sid, call_exchangeId = request_exchangeId request,
             call_editorUrl = url, call_accessToken = token, call_hasRetried = True\<rparr>]\<rparr>"
proof (intro conjI impI)
  let ?call0 = "\<lparr>call_method = sidecarMethod request, call_prompt = request_prompt request,
             call_sessionId = sid, call_exchangeId = request_exchangeId request,
             call_editorUrl = url, call_accessToken = token, call_hasRetried = False\<rparr>"
  let ?call1 = "\<lparr>call_method = sidecarMethod request, call_prompt = request_prompt request,
              call_sessionId = sid, call_exchangeId = request_exchangeId request,
              call_editorUrl = url, call_accessToken = accessToken (getSession True),
              call_hasRetried = True\<rparr>"
  assume hyp: "sidecar ?call0 = pre @ Envelope rid xid ev # rest \<and>
    dispatchLoop (Some False) False s0 False pre = (Continue, streamStarted, s) \<and>
    (ev = ErrorEvent message \<and> includes_str (toLowerCase message) ''unauthorized access'' \<and>
       \<not> endsWith (toLowerCase message) ''cancelled by user'' \<or>
     ev = FrameworkEvent (ToolCallError ''LLM Client error: Unauthorized access to API'') \<and>
       map_of (responseStreamCollection (streamCollection s))
         (getKey \<lparr>sessionId = rid, exchangeId = xid\<rparr>) \<noteq> None)"
  then have events: "sidecar ?call0 = pre @ Envelope rid xid ev # rest"
    and pre: "dispatchLoop (Some False) False s0 False pre = (Continue, streamStarted, s)"
    and auth: "ev = ErrorEvent message \<and> includes_str (toLowerCase message) ''unauthorized access'' \<and>
       \<not> endsWith (toLowerCase message) ''cancelled by user'' \<or>
     ev = FrameworkEvent (ToolCallError ''LLM Client error: Unauthorized access to API'') \<and>
       map_of (responseStreamCollection (streamCollection s))
         (getKey \<lparr>sessionId = rid, exchangeId = xid\<rparr>) \<noteq> None"
    by blast+
  have "fst (dispatchEvent (Some False) False s streamStarted (Envelope rid xid ev)) = Return True"
    using auth by (rule dispatchEvent_unauthorized)
  with pre obtain s' where report:
    "reportAgentEventsToChat (Some False) False s0 sid (pre @ Envelope rid xid ev # rest)
       = (None, True, s')"
    using reportAgentEventsToChat_unauthorized by blast
  have attempt: "streamResponseTry sidecar (s0, log) request sid url token False =
      (None, True, s', log\<lparr>sidecarCalls := sidecarCalls log @ [?call0]\<rparr>)"
    by (simp add: streamResponseTry_def Let_def events report)
  have "snd (snd (streamResponse sidecar getSession (s0, log) request sid url token False)) =
      snd (snd (streamResponse sidecar getSession
        (s', log\<lparr>sidecarCalls := sidecarCalls log @ [?call0],
                 sessionChecks := sessionChecks log @ [True]\<rparr>)
        request sid url (accessToken (getSession True)) True))"
    by (subst streamResponse.simps) (simp add: attempt Let_def)
  also have "\<dots> = log\<lparr>sidecarCalls := sidecarCalls log @ [?call0, ?call1],
                       sessionChecks := sessionChecks log @ [True]\<rparr>"
    by (simp add: streamResponse_retried_log)
  finally show "snd (snd (streamResponse sidecar getSession (s0, log) request sid url token False)) =
      log\<lparr>sidecarCalls := sidecarCalls log @ [?call0, ?call1],
          sessionChecks := sessionChecks log @ [True]\<rparr>" .
next
  show "snd (snd (streamResponse sidecar getSession (s0, log) request sid url token True)) =
     log\<lparr>sidecarCalls := sidecarCalls log @
           [\<lparr>call_method = sidecarMethod request, call_prompt = request_prompt request,
             call_sessionId = sid, call_exchangeId = request_exchangeId request,
             call_editorUrl = url, call_accessToken = token, call_hasRetried = True\<rparr>]\<rparr>"
    by (rule streamResponse_retried_log)
qed

lemma unauthorized_message_includes:
  "includes_str (toLowerCase unauthorized_message) ''unauthorized access'' \<and>
   \<not> endsWith (toLowerCase unauthorized_message) ''cancelled by user''"
  by (simp add: unauthorized_message_def toLowerCase_def toLowerChar_def endsWith_def)

theorem unauthorized_retry_witness:
  "snd (snd (streamResponse unauthorized_sidecar (\<lambda>hardCheck. Some ''t2'')
       (cancel_example, \<lparr>sidecarCalls = [], sessionChecks = [False]\<rparr>)
       chat_request ''s'' ''http://localhost:42427'' ''t1'' False)) =
     \<lparr>sidecarCalls =
        [\<lparr>call_method = AgentSessionChat, call_prompt = ''hi'', call_sessionId = ''s'',
          call_exchangeId = ''x'', call_editorUrl = ''http://localhost:42427'',
          call_accessToken = ''t1'', call_hasRetried = False\<rparr>,
         \<lparr>call_method = AgentSessionChat, call_prompt = ''hi'', call_sessionId = ''s'',
          call_exchangeId = ''x'', call_editorUrl = ''http://localhost:42427'',
          call_accessToken = ''t2'', call_hasRetried = True\<rparr>],
      sessionChecks = [False, True]\<rparr>"
proof -
  have hyp: "unauthorized_sidecar
       \<lparr>call_method = sidecarMethod chat_request, call_prompt = request_prompt chat_request,
        call_sessionId = ''s'', call_exchangeId = request_exchangeId chat_request,
        call_editorUrl = ''http://localhost:42427'', call_accessToken = ''t1'',
        call_hasRetried = False\<rparr>
      = [KeepAlive] @ Envelope ''s'' ''x'' (ErrorEvent unauthorized_message) # [Done] \<and>
    dispatchLoop (Some False) False cancel_example False [KeepAlive]
      = (Continue, False, cancel_example) \<and>
    (ErrorEvent unauthorized_message = ErrorEvent unauthorized_message \<and>
       includes_str (toLowerCase unauthorized_message) ''unauthorized access'' \<and>
       \<not> endsWith (toLowerCase unauthorized_message) ''cancelled by user'' \<or>
     ErrorEvent unauthorized_message
         = FrameworkEvent (ToolCallError ''LLM Client error: Unauthorized access to API'') \<and>
       map_of (responseStreamCollection (streamCollection cancel_example))
         (getKey \<lparr>sessionId = ''s'', exchangeId = ''x''\<rparr>) \<noteq> None)"
    using unauthorized_message_includes by (simp add: unauthorized_sidecar_def dispatchEvent_def)
  note th = unauthorized_retry [of unauthorized_sidecar chat_request "''s''"
      "''http://localhost:42427''" "''t1''" "[KeepAlive]" "''s''" "''x''"
      "ErrorEvent unauthorized_message" "[Done]" cancel_example False cancel_example
      unauthorized_message "\<lambda>hardCheck. Some ''t2''" "\<lparr>sidecarCalls = [], sessionChecks = [False]\<rparr>",
      THEN conjunct1, THEN mp, OF hyp]
  show ?thesis
    unfolding th by (simp add: sidecarMethod_def chat_request_def accessToken_def)
qed

end
